theory Spec2Isabelle
  imports Complex_Main "HOL-Library.Word" "HOL-Library.Log_Nat" "HOL-Library.AList"
begin

section \<open>JavaScript values used by \<open>src/main.ts\<close>\<close>

subsection \<open>Strings\<close>

text \<open>
  A JavaScript string is a sequence of UTF-16 code units. Literals of the source are
  written \<open>js ''...''\<close>.
\<close>

type_synonym jschar = "16 word"
type_synonym jsstring = "jschar list"

definition js :: "string \<Rightarrow> jsstring" where
  "js s = map (\<lambda>c. of_nat (of_char c)) s"

text \<open>
  The code units removed by \<open>String.prototype.trim\<close> and skipped around a numeric
  string: WhiteSpace and LineTerminator of ECMA-262.
\<close>

definition isWhiteSpace :: "jschar \<Rightarrow> bool" where
  "isWhiteSpace c \<longleftrightarrow>
     c = 0x09 \<or> c = 0x0A \<or> c = 0x0B \<or> c = 0x0C \<or> c = 0x0D \<or> c = 0x20 \<or> c = 0xA0 \<or>
     c = 0x1680 \<or> (0x2000 \<le> c \<and> c \<le> 0x200A) \<or> c = 0x2028 \<or> c = 0x2029 \<or>
     c = 0x202F \<or> c = 0x205F \<or> c = 0x3000 \<or> c = 0xFEFF"

definition trim :: "jsstring \<Rightarrow> jsstring" where
  "trim s = rev (dropWhile isWhiteSpace (rev (dropWhile isWhiteSpace s)))"

definition isDigit :: "jschar \<Rightarrow> bool" where
  "isDigit c \<longleftrightarrow> 0x30 \<le> c \<and> c \<le> 0x39"

definition hexVal :: "jschar \<Rightarrow> int option" where
  "hexVal c =
     (if 0x30 \<le> c \<and> c \<le> 0x39 then Some (uint c - 0x30)
      else if 0x41 \<le> c \<and> c \<le> 0x46 then Some (uint c - 0x41 + 10)
      else if 0x61 \<le> c \<and> c \<le> 0x66 then Some (uint c - 0x61 + 10)
      else None)"

text \<open>The value of a digit string in a radix; \<open>None\<close> when a character is no digit of it.\<close>

fun radixValue :: "int \<Rightarrow> int \<Rightarrow> jsstring \<Rightarrow> int option" where
  "radixValue b acc [] = Some acc"
| "radixValue b acc (c # cs) =
     (case hexVal c of
        None \<Rightarrow> None
      | Some d \<Rightarrow> if d < b then radixValue b (b * acc + d) cs else None)"

text \<open>Decimal rendering of a non-negative integer, as a template literal does it.\<close>

definition digitChar :: "nat \<Rightarrow> jschar" where
  "digitChar d = of_nat (0x30 + d)"

function showNat :: "nat \<Rightarrow> jsstring" where
  "showNat n =
     (if n < 10 then [digitChar n] else showNat (n div 10) @ [digitChar (n mod 10)])"
  by pat_completeness auto
termination
  by (relation "measure id") auto

declare showNat.simps [simp del]

subsection \<open>Numbers\<close>

text \<open>
  A Number is an IEEE-754 binary64 value: not-a-number, an infinity, negative zero, or a
  finite value, kept as the rational it denotes (\<open>Fin 0\<close> is positive zero).
\<close>

datatype jsnum = NaN | PosInf | NegInf | NegZero | Fin rat

fun negate :: "jsnum \<Rightarrow> jsnum" where
  "negate NaN = NaN"
| "negate PosInf = NegInf"
| "negate NegInf = PosInf"
| "negate NegZero = Fin 0"
| "negate (Fin q) = (if q = 0 then NegZero else Fin (- q))"

definition pow2 :: "int \<Rightarrow> rat" where
  "pow2 e = (if 0 \<le> e then 2 ^ nat e else 1 / 2 ^ nat (- e))"

definition pow10 :: "int \<Rightarrow> rat" where
  "pow10 e = (if 0 \<le> e then 10 ^ nat e else 1 / 10 ^ nat (- e))"

definition roundHalfEven :: "rat \<Rightarrow> int" where
  "roundHalfEven q =
     (let f = \<lfloor>q\<rfloor>; d = q - of_int f in
      if d < 1 / 2 then f else if 1 / 2 < d then f + 1 else if even f then f else f + 1)"

text \<open>For \<open>0 < q\<close>, the exponent \<open>e\<close> with \<open>2 ^ e \<le> q < 2 ^ (e + 1)\<close>.\<close>

definition ilog2 :: "rat \<Rightarrow> int" where
  "ilog2 q =
     (let e = bitlen (fst (quotient_of q)) - bitlen (snd (quotient_of q)) in
      if pow2 e \<le> q then e else e - 1)"

text \<open>
  The Number value of a non-negative mathematical value: the nearest binary64 value, ties
  to even, with 53 significant bits, subnormals below \<open>2 ^ -1022\<close>, and infinity when
  the rounded value reaches \<open>2 ^ 1024\<close>.
\<close>

definition numberOfMV :: "rat \<Rightarrow> jsnum" where
  "numberOfMV q =
     (if q \<le> 0 then Fin 0
      else let p = max (ilog2 q - 52) (- 1074);
               v = of_int (roundHalfEven (q / pow2 p)) * pow2 p
           in if 1024 \<le> ilog2 v then PosInf else Fin v)"

text \<open>
  The mathematical value of a decimal literal with integer digits \<open>ip\<close>, fraction digits
  \<open>fp\<close> and exponent \<open>ex\<close>. Both digit strings consist of decimal digits.
\<close>

definition decimalMV :: "jsstring \<Rightarrow> jsstring \<Rightarrow> int \<Rightarrow> rat" where
  "decimalMV ip fp ex =
     (of_int (the (radixValue 10 0 ip)) + of_int (the (radixValue 10 0 fp)) / 10 ^ length fp)
       * pow10 ex"

text \<open>
  An optional ExponentPart that must use up the rest of the text: \<open>e\<close> or \<open>E\<close>, an
  optional sign, and at least one digit.
\<close>

definition exponentPart :: "jsstring \<Rightarrow> int option" where
  "exponentPart s =
     (case s of
        [] \<Rightarrow> Some 0
      | c # r \<Rightarrow>
          if c = 0x65 \<or> c = 0x45 then
            (let (neg, ds) = (case r of
                     [] \<Rightarrow> (False, [])
                   | x # r' \<Rightarrow> if x = 0x2D then (True, r') else if x = 0x2B then (False, r')
                               else (False, r))
             in if ds \<noteq> [] \<and> list_all isDigit ds
                then Some ((if neg then - 1 else 1) * the (radixValue 10 0 ds))
                else None)
          else None)"

text \<open>StrUnsignedDecimalLiteral of ECMA-262, matched against the whole text.\<close>

definition strUnsignedDecimal :: "jsstring \<Rightarrow> jsnum" where
  "strUnsignedDecimal s =
     (if s = js ''Infinity'' then PosInf
      else let ip = takeWhile isDigit s; r1 = dropWhile isDigit s;
               (dot, fp, r2) = (case r1 of
                     [] \<Rightarrow> (False, [], r1)
                   | c # r \<Rightarrow> if c = 0x2E then (True, takeWhile isDigit r, dropWhile isDigit r)
                              else (False, [], r1))
           in if ip = [] \<and> \<not> (dot \<and> fp \<noteq> []) then NaN
              else (case exponentPart r2 of
                      None \<Rightarrow> NaN
                    | Some ex \<Rightarrow> numberOfMV (decimalMV ip fp ex)))"

text \<open>NonDecimalIntegerLiteral: \<open>0x\<close>, \<open>0o\<close> or \<open>0b\<close> and at least one digit, no sign.\<close>

definition nonDecimalLiteral :: "jsstring \<Rightarrow> int option" where
  "nonDecimalLiteral s =
     (case s of
        z # p # d # ds \<Rightarrow>
          if z \<noteq> 0x30 then None
          else if p = 0x78 \<or> p = 0x58 then radixValue 16 0 (d # ds)
          else if p = 0x6F \<or> p = 0x4F then radixValue 8 0 (d # ds)
          else if p = 0x62 \<or> p = 0x42 then radixValue 2 0 (d # ds)
          else None
      | _ \<Rightarrow> None)"

text \<open>
  StringToNumber: the text without surrounding white space is empty (\<open>+0\<close>), a
  non-decimal integer literal, or an optionally signed decimal literal; anything else is
  \<open>NaN\<close>.
\<close>

definition StringToNumber :: "jsstring \<Rightarrow> jsnum" where
  "StringToNumber s =
     (let t = trim s in
      case t of
        [] \<Rightarrow> Fin 0
      | c # r \<Rightarrow>
          (case nonDecimalLiteral t of
             Some n \<Rightarrow> numberOfMV (of_int n)
           | None \<Rightarrow>
               if c = 0x2D then negate (strUnsignedDecimal r)
               else if c = 0x2B then strUnsignedDecimal r
               else strUnsignedDecimal t))"

subsection \<open>JSON values\<close>

text \<open>
  What \<open>JSON.parse\<close> returns. An object lists its members in the order of its own
  property keys: the keys that are array indices first, in ascending order, then the
  other keys in insertion order. A repeated key keeps its position and takes its last
  value.
\<close>

datatype json =
    JNull
  | JBool bool
  | JNumber jsnum
  | JString jsstring
  | JArray "json list"
  | JObject "(jsstring \<times> json) list"

text \<open>
  An array index is the canonical decimal text of an integer from 0 to \<open>2 ^ 32 - 2\<close>:
  digits only, without a leading zero.
\<close>

definition arrayIndex :: "jsstring \<Rightarrow> int option" where
  "arrayIndex k =
     (if k \<noteq> [] \<and> list_all isDigit k \<and> (hd k \<noteq> 0x30 \<or> k = [0x30])
         \<and> the (radixValue 10 0 k) < 4294967295
      then radixValue 10 0 k else None)"

text \<open>A new member with the index \<open>n\<close> goes before the first member that is no
  index or has a larger one.\<close>

fun insertIndex :: "int \<Rightarrow> jsstring \<Rightarrow> 'v \<Rightarrow> (jsstring \<times> 'v) list \<Rightarrow> (jsstring \<times> 'v) list" where
  "insertIndex n k v [] = [(k, v)]"
| "insertIndex n k v (p # ps) =
     (case arrayIndex (fst p) of
        None \<Rightarrow> (k, v) # p # ps
      | Some m \<Rightarrow> if m < n then p # insertIndex n k v ps else (k, v) # p # ps)"

text \<open>
  Defining the member \<open>k\<close> of an object: a member that is there takes the new value
  in its place, a new index is sorted in, and any other new key goes to the end.
\<close>

definition setMember :: "jsstring \<Rightarrow> 'v \<Rightarrow> (jsstring \<times> 'v) list \<Rightarrow> (jsstring \<times> 'v) list" where
  "setMember k v fs =
     (if map_of fs k \<noteq> None then AList.update k v fs
      else (case arrayIndex k of
              None \<Rightarrow> fs @ [(k, v)]
            | Some n \<Rightarrow> insertIndex n k v fs))"

subsection \<open>\<open>JSON.parse\<close>: the lexical grammar\<close>

datatype token =
    TLBrace | TRBrace | TLBracket | TRBracket | TColon | TComma
  | TString jsstring | TNumber jsnum | TTrue | TFalse | TNull

definition isJsonWS :: "jschar \<Rightarrow> bool" where
  "isJsonWS c \<longleftrightarrow> c = 0x09 \<or> c = 0x0A \<or> c = 0x0D \<or> c = 0x20"

definition unescape :: "jschar \<Rightarrow> jschar option" where
  "unescape e =
     (if e = 0x22 then Some 0x22 else if e = 0x5C then Some 0x5C
      else if e = 0x2F then Some 0x2F else if e = 0x62 then Some 0x08
      else if e = 0x66 then Some 0x0C else if e = 0x6E then Some 0x0A
      else if e = 0x72 then Some 0x0D else if e = 0x74 then Some 0x09
      else None)"

text \<open>
  The characters after an opening quote, up to the closing one: the string's value and the
  text after it. Control characters below U+0020 are not allowed; a backslash starts one of
  the eight simple escapes or \<open>\uXXXX\<close>.
\<close>

fun lexString :: "jsstring \<Rightarrow> jsstring \<Rightarrow> (jsstring \<times> jsstring) option" where
  "lexString acc [] = None"
| "lexString acc (c # cs) =
     (if c = 0x22 then Some (rev acc, cs)
      else if c < 0x20 then None
      else if c \<noteq> 0x5C then lexString (c # acc) cs
      else (case cs of
              [] \<Rightarrow> None
            | e # r \<Rightarrow>
                if e = 0x75 then
                  (if length r < 4 then None
                   else (case radixValue 16 0 (take 4 r) of
                           None \<Rightarrow> None
                         | Some n \<Rightarrow> lexString (of_int n # acc) (drop 4 r)))
                else (case unescape e of
                        None \<Rightarrow> None
                      | Some x \<Rightarrow> lexString (x # acc) r)))"

text \<open>
  A JSON number: an optional minus, an integer part without a leading zero, an optional
  fraction and an optional exponent, each with at least one digit.
\<close>

definition lexMinus :: "jsstring \<Rightarrow> bool \<times> jsstring" where
  "lexMinus s = (case s of [] \<Rightarrow> (False, s) | c # r \<Rightarrow> if c = 0x2D then (True, r) else (False, s))"

definition lexInt :: "jsstring \<Rightarrow> (jsstring \<times> jsstring) option" where
  "lexInt s =
     (case s of
        [] \<Rightarrow> None
      | c # r \<Rightarrow> if c = 0x30 then Some ([c], r)
                 else if isDigit c then Some (c # takeWhile isDigit r, dropWhile isDigit r)
                 else None)"

definition lexFrac :: "jsstring \<Rightarrow> (jsstring \<times> jsstring) option" where
  "lexFrac s =
     (case s of
        [] \<Rightarrow> Some ([], s)
      | c # r \<Rightarrow> if c \<noteq> 0x2E then Some ([], s)
                 else if takeWhile isDigit r = [] then None
                 else Some (takeWhile isDigit r, dropWhile isDigit r))"

definition lexSign :: "jsstring \<Rightarrow> bool \<times> jsstring" where
  "lexSign s =
     (case s of
        [] \<Rightarrow> (False, s)
      | c # r \<Rightarrow> if c = 0x2D then (True, r) else if c = 0x2B then (False, r) else (False, s))"

definition lexExp :: "jsstring \<Rightarrow> (int \<times> jsstring) option" where
  "lexExp s =
     (case s of
        [] \<Rightarrow> Some (0, s)
      | c # r \<Rightarrow>
          if c \<noteq> 0x65 \<and> c \<noteq> 0x45 then Some (0, s)
          else (let (neg, t) = lexSign r; ds = takeWhile isDigit t in
                if ds = [] then None
                else Some ((if neg then - 1 else 1) * the (radixValue 10 0 ds),
                           dropWhile isDigit t)))"

definition lexNumber :: "jsstring \<Rightarrow> (jsnum \<times> jsstring) option" where
  "lexNumber s =
     (let (neg, s1) = lexMinus s in
      case lexInt s1 of
        None \<Rightarrow> None
      | Some (ip, s2) \<Rightarrow>
          (case lexFrac s2 of
             None \<Rightarrow> None
           | Some (fp, s3) \<Rightarrow>
               (case lexExp s3 of
                  None \<Rightarrow> None
                | Some (ex, s4) \<Rightarrow>
                    Some ((if neg then negate else id) (numberOfMV (decimalMV ip fp ex)), s4))))"

lemma lexString_shorter:
  "lexString acc s = Some (v, rest) \<Longrightarrow> length rest < length s"
proof (induction acc s rule: lexString.induct)
  case (1 acc)
  then show ?case by simp
next
  case (2 acc c cs)
  show ?case
  proof (cases "c = 0x22 \<or> c < 0x20 \<or> c \<noteq> 0x5C")
    case True
    then show ?thesis using 2 by (auto split: if_splits)
  next
    case False
    then obtain e r where cs: "cs = e # r"
      using "2.prems" by (cases cs) auto
    show ?thesis
    proof (cases "e = 0x75")
      case True
      with False cs "2.prems" obtain n where
        "\<not> length r < 4" "radixValue 16 0 (take 4 r) = Some n"
        "lexString (of_int n # acc) (drop 4 r) = Some (v, rest)"
        by (auto split: if_splits option.splits)
      with "2.IH"(2) [OF _ _ _ cs True this(1,2)] False cs show ?thesis
        by simp
    next
      case ne: False
      with False cs "2.prems" obtain x where
        "unescape e = Some x" "lexString (x # acc) r = Some (v, rest)"
        by (auto split: if_splits option.splits)
      with "2.IH"(3) [OF _ _ _ cs ne this(1)] False cs show ?thesis
        by simp
    qed
  qed
qed

lemma lexNumber_shorter:
  assumes "lexNumber s = Some (n, rest)"
  shows "length rest < length s"
proof -
  obtain neg s1 where m: "lexMinus s = (neg, s1)"
    by (cases "lexMinus s")
  from assms m obtain ip s2 fp s3 ex where
    i: "lexInt s1 = Some (ip, s2)" and f: "lexFrac s2 = Some (fp, s3)"
    and e: "lexExp s3 = Some (ex, rest)"
    by (auto simp: lexNumber_def split: option.splits)
  have "length s1 \<le> length s"
    using m by (auto simp: lexMinus_def split: list.splits if_splits)
  moreover have "length s2 < length s1"
    using i length_dropWhile_le [of isDigit "tl s1"]
    by (auto simp: lexInt_def less_Suc_eq_le split: list.splits if_splits)
  moreover have "length s3 \<le> length s2"
    using f length_dropWhile_le [of isDigit "tl s2"]
    by (auto simp: lexFrac_def split: list.splits if_splits)
  moreover have "length rest \<le> length s3"
  proof (cases s3)
    case Nil
    with e show ?thesis by (simp add: lexExp_def)
  next
    case (Cons c r)
    obtain sg t where sg: "lexSign r = (sg, t)"
      by (cases "lexSign r")
    have "length t \<le> length r"
      using sg by (auto simp: lexSign_def split: list.splits if_splits)
    moreover have "length (dropWhile isDigit t) \<le> length t"
      by (rule length_dropWhile_le)
    ultimately show ?thesis
      using e Cons sg by (auto simp: lexExp_def Let_def split: if_splits)
  qed
  ultimately show ?thesis by linarith
qed

text \<open>The whole text as tokens; \<open>None\<close> when some character starts no token.\<close>

function tokenize :: "jsstring \<Rightarrow> token list option" where
  "tokenize [] = Some []"
| "tokenize (c # cs) =
     (if isJsonWS c then tokenize cs
      else if c = 0x7B then map_option (Cons TLBrace) (tokenize cs)
      else if c = 0x7D then map_option (Cons TRBrace) (tokenize cs)
      else if c = 0x5B then map_option (Cons TLBracket) (tokenize cs)
      else if c = 0x5D then map_option (Cons TRBracket) (tokenize cs)
      else if c = 0x3A then map_option (Cons TColon) (tokenize cs)
      else if c = 0x2C then map_option (Cons TComma) (tokenize cs)
      else if c = 0x22 then
        (case lexString [] cs of
           None \<Rightarrow> None
         | Some (v, rest) \<Rightarrow> map_option (Cons (TString v)) (tokenize rest))
      else if c = 0x2D \<or> isDigit c then
        (case lexNumber (c # cs) of
           None \<Rightarrow> None
         | Some (n, rest) \<Rightarrow> map_option (Cons (TNumber n)) (tokenize rest))
      else if take 4 (c # cs) = js ''true'' then map_option (Cons TTrue) (tokenize (drop 3 cs))
      else if take 5 (c # cs) = js ''false'' then map_option (Cons TFalse) (tokenize (drop 4 cs))
      else if take 4 (c # cs) = js ''null'' then map_option (Cons TNull) (tokenize (drop 3 cs))
      else None)"
  by pat_completeness (simp_all split del: if_split)
termination
proof (relation "measure length", goal_cases)
  case (9 c cs x2 x y)
  then show ?case using lexString_shorter [of "[]" cs x y] by simp
next
  case (10 c cs x2 x y)
  then show ?case using lexNumber_shorter [of "c # cs" x y] by simp
qed simp_all

subsection \<open>\<open>JSON.parse\<close>: the syntactic grammar\<close>

text \<open>
  The tokens are read left to right with a stack of the arrays and objects that are still
  open. An array frame holds the elements read so far, an object frame the members read so
  far and the key whose value is being read.
\<close>

datatype frame =
    ArrayFrame "json list"
  | ObjectFrame "(jsstring \<times> json) list" jsstring

datatype pstate =
    ExpectValue "frame list"
  | ExpectValueOrEnd "frame list"
  | ExpectKeyOrEnd "frame list"
  | ExpectKey "(jsstring \<times> json) list" "frame list"
  | ExpectColon "(jsstring \<times> json) list" jsstring "frame list"
  | HaveValue json "frame list"

fun startValue :: "frame list \<Rightarrow> token \<Rightarrow> pstate option" where
  "startValue st TLBracket = Some (ExpectValueOrEnd st)"
| "startValue st TLBrace = Some (ExpectKeyOrEnd st)"
| "startValue st (TString v) = Some (HaveValue (JString v) st)"
| "startValue st (TNumber n) = Some (HaveValue (JNumber n) st)"
| "startValue st TTrue = Some (HaveValue (JBool True) st)"
| "startValue st TFalse = Some (HaveValue (JBool False) st)"
| "startValue st TNull = Some (HaveValue JNull st)"
| "startValue st _ = None"

fun step :: "pstate \<Rightarrow> token \<Rightarrow> pstate option" where
  "step (ExpectValue st) t = startValue st t"
| "step (ExpectValueOrEnd st) t =
     (case t of
        TRBracket \<Rightarrow> Some (HaveValue (JArray []) st)
      | _ \<Rightarrow> startValue (ArrayFrame [] # st) t)"
| "step (ExpectKeyOrEnd st) t =
     (case t of
        TRBrace \<Rightarrow> Some (HaveValue (JObject []) st)
      | TString k \<Rightarrow> Some (ExpectColon [] k st)
      | _ \<Rightarrow> None)"
| "step (ExpectKey fs st) t =
     (case t of TString k \<Rightarrow> Some (ExpectColon fs k st) | _ \<Rightarrow> None)"
| "step (ExpectColon fs k st) t =
     (case t of TColon \<Rightarrow> Some (ExpectValue (ObjectFrame fs k # st)) | _ \<Rightarrow> None)"
| "step (HaveValue v []) t = None"
| "step (HaveValue v (ArrayFrame xs # st)) t =
     (case t of
        TComma \<Rightarrow> Some (ExpectValue (ArrayFrame (xs @ [v]) # st))
      | TRBracket \<Rightarrow> Some (HaveValue (JArray (xs @ [v])) st)
      | _ \<Rightarrow> None)"
| "step (HaveValue v (ObjectFrame fs k # st)) t =
     (case t of
        TComma \<Rightarrow> Some (ExpectKey (setMember k v fs) st)
      | TRBrace \<Rightarrow> Some (HaveValue (JObject (setMember k v fs)) st)
      | _ \<Rightarrow> None)"

fun run :: "pstate \<Rightarrow> token list \<Rightarrow> json option" where
  "run s [] = (case s of HaveValue v [] \<Rightarrow> Some v | _ \<Rightarrow> None)"
| "run s (t # ts) = (case step s t of None \<Rightarrow> None | Some s' \<Rightarrow> run s' ts)"

text \<open>\<open>JSON.parse(text)\<close>; \<open>None\<close> is the SyntaxError it throws.\<close>

definition JSON_parse :: "jsstring \<Rightarrow> json option" where
  "JSON_parse text =
     (case tokenize text of None \<Rightarrow> None | Some ts \<Rightarrow> run (ExpectValue []) ts)"

subsection \<open>Conversions and property reads\<close>

text \<open>A value of type \<open>json option\<close> is a JavaScript value; \<open>None\<close> is \<open>undefined\<close>.\<close>

datatype error = SyntaxError | TypeError | RequestError | FileError

fun truthy :: "json option \<Rightarrow> bool" where
  "truthy None = False"
| "truthy (Some JNull) = False"
| "truthy (Some (JBool b)) = b"
| "truthy (Some (JNumber n)) = (n \<noteq> NaN \<and> n \<noteq> Fin 0 \<and> n \<noteq> NegZero)"
| "truthy (Some (JString s)) = (s \<noteq> [])"
| "truthy (Some (JArray xs)) = True"
| "truthy (Some (JObject fs)) = True"

text \<open>
  Reading the property \<open>k\<close> of a value, for the names this program reads (\<open>reviews\<close>,
  \<open>lineNumber\<close>, \<open>reviewComment\<close>, \<open>action\<close>, \<open>repository\<close>, \<open>number\<close>, \<open>owner\<close>,
  \<open>login\<close>, \<open>name\<close>): none of them is a property of a string, a number, a boolean or
  an array, and \<open>null\<close> and \<open>undefined\<close> have no properties at all.
\<close>

fun getProp :: "json option \<Rightarrow> jsstring \<Rightarrow> error + json option" where
  "getProp None k = Inl TypeError"
| "getProp (Some JNull) k = Inl TypeError"
| "getProp (Some (JObject fs)) k = Inr (map_of fs k)"
| "getProp (Some _) k = Inr None"

text \<open>The same read for a value that is not \<open>null\<close>, where it cannot throw.\<close>

fun property :: "json \<Rightarrow> jsstring \<Rightarrow> json option" where
  "property (JObject fs) k = map_of fs k"
| "property _ k = None"

text \<open>
  \<open>Number(v)\<close> when the conversion does not throw. An object converts through its
  text \<open>[object Object]\<close>. An array
  converts through the text of its elements joined by commas, where \<open>null\<close> is the empty
  text: with two or more elements that text has a comma and is no numeric literal; with one
  element it is the text of that element, and a Number written out and read back is the
  same Number, except that negative zero comes back positive.
\<close>

fun NumberOfJson :: "json \<Rightarrow> jsnum" where
  "NumberOfJson JNull = Fin 0"
| "NumberOfJson (JBool b) = (if b then Fin 1 else Fin 0)"
| "NumberOfJson (JNumber n) = n"
| "NumberOfJson (JString s) = StringToNumber s"
| "NumberOfJson (JObject fs) = NaN"
| "NumberOfJson (JArray []) = Fin 0"
| "NumberOfJson (JArray [JNull]) = Fin 0"
| "NumberOfJson (JArray [JBool b]) = NaN"
| "NumberOfJson (JArray [JNumber n]) = (if n = NegZero then Fin 0 else n)"
| "NumberOfJson (JArray [JString s]) = StringToNumber s"
| "NumberOfJson (JArray [JObject fs]) = NaN"
| "NumberOfJson (JArray [JArray xs]) = NumberOfJson (JArray xs)"
| "NumberOfJson (JArray (x # y # zs)) = NaN"

text \<open>
  Converting an object to a primitive calls its \<open>valueOf\<close> and \<open>toString\<close>. The
  inherited \<open>valueOf\<close> returns the object itself, so the text comes from \<open>toString\<close>; a
  member named \<open>toString\<close> hides the inherited method and cannot be called, and then
  the conversion throws a TypeError. An array throws when one of its elements does.
\<close>

fun throwsToString :: "json \<Rightarrow> bool" where
  "throwsToString (JObject fs) = (map_of fs (js ''toString'') \<noteq> None)"
| "throwsToString (JArray xs) = list_ex throwsToString xs"
| "throwsToString _ = False"

fun Number :: "json option \<Rightarrow> error + jsnum" where
  "Number None = Inr NaN"
| "Number (Some v) = (if throwsToString v then Inl TypeError else Inr (NumberOfJson v))"

text \<open>\<open>s.split(sep)\<close> for a one-character separator.\<close>

fun splitOn :: "jschar \<Rightarrow> jsstring \<Rightarrow> jsstring list" where
  "splitOn sep [] = [[]]"
| "splitOn sep (c # cs) =
     (if c = sep then [] # splitOn sep cs
      else (case splitOn sep cs of [] \<Rightarrow> [[c]] | x # xs \<Rightarrow> (c # x) # xs))"

text \<open>\<open>xs.join(sep)\<close> for an array of strings.\<close>

fun join :: "jsstring \<Rightarrow> jsstring list \<Rightarrow> jsstring" where
  "join sep [] = []"
| "join sep [x] = x"
| "join sep (x # y # zs) = x @ sep @ join sep (y # zs)"

section \<open>The program\<close>

subsection \<open>Data\<close>

text \<open>The records of the \<open>parse-diff\<close> library that the program reads.\<close>

datatype Change =
    AddChange nat jsstring
  | DeleteChange nat jsstring
  | NormalChange nat nat jsstring

record Chunk =
  content :: jsstring
  changes :: "Change list"
  oldStart :: nat
  oldLines :: nat
  newStart :: nat
  newLines :: nat

record File =
  to :: "jsstring option"
  from_path :: "jsstring option"
  chunks :: "Chunk list"
  additions :: nat
  deletions :: nat

text \<open>
  \<open>owner\<close>, \<open>repo\<close> and \<open>pull_number\<close> are whatever the event file holds at
  \<open>repository.owner.login\<close>, \<open>repository.name\<close> and \<open>number\<close>.
\<close>

record PRDetails =
  owner :: "json option"
  repo :: "json option"
  pull_number :: "json option"
  title :: jsstring
  description :: jsstring

text \<open>
  A comment as \<open>createComment\<close> builds it: \<open>body\<close> is the \<open>reviewComment\<close> property
  as it was read, \<open>line\<close> the result of \<open>Number\<close>.
\<close>

record ReviewComment =
  body :: "json option"
  path :: jsstring
  line :: jsnum

subsection \<open>The environment\<close>

text \<open>
  The data of a pull request that the program reads, and a chat completion: its choices,
  each with an optional message, each message with an optional content.
\<close>

record Pull =
  pull_title :: "jsstring option"
  pull_body :: "jsstring option"

type_synonym completion = "jsstring option option list"

datatype request =
  CreateReview "json option" "json option" "json option" "ReviewComment list"

fun request_comments :: "request \<Rightarrow> ReviewComment list" where
  "request_comments (CreateReview ow re nu cs) = cs"

text \<open>
  Everything outside the program: the event file, the two requests for the pull request,
  the libraries \<open>parse-diff\<close> and \<open>minimatch\<close>, the \<open>exclude\<close> input, the model, and
  the request that creates the review. A result \<open>None\<close> (\<open>False\<close> for
  \<open>pulls_createReview\<close>) is a call that throws. The model is asked with the number of
  requests made before, so that it may answer the same prompt differently. The event
  file has the same content at both reads of a run, and the two libraries return on every
  input.
\<close>

record env =
  event_file :: "jsstring option"
  pulls_get :: "json option \<Rightarrow> json option \<Rightarrow> json option \<Rightarrow> Pull option"
  pulls_get_diff :: "json option \<Rightarrow> json option \<Rightarrow> json option \<Rightarrow> jsstring option"
  parseDiff :: "jsstring \<Rightarrow> File list"
  exclude :: jsstring
  minimatch :: "jsstring \<Rightarrow> jsstring \<Rightarrow> bool"
  chat_completions_create :: "nat \<Rightarrow> jsstring \<Rightarrow> completion option"
  pulls_createReview :: "request \<Rightarrow> bool"

text \<open>What is written to the console, one constructor for each call in the source.\<close>

datatype message =
    LogRetrievedDiff nat
  | ErrorFetchingDiff
  | LogAnalyzingFile "jsstring option"
  | LogAIResponse "jsstring option" json
  | LogGenerated nat "jsstring option"
  | LogTotal nat
  | LogRawResponse jsstring
  | LogParsedResponse json
  | ErrorInGetAIResponse error
  | ErrorFailedText jsstring
  | LogEventAction "json option"
  | LogFetching "json option"
  | LogUnsupported "json option"
  | LogNoDiff
  | LogDiffSize nat
  | LogFound nat nat
  | LogFilesToAnalyze "jsstring option list"
  | LogPosting nat
  | LogPosted
  | LogNoIssues
  | ErrorMain error

text \<open>
  The effects of a run: the console, the prompts sent to the model, the hunks handed to
  \<open>createPrompt\<close>, and the review requests made.
\<close>

record world =
  console :: "message list"
  sent :: "jsstring list"
  prompted :: "(File \<times> Chunk) list"
  reviews :: "request list"

definition world0 :: world where
  "world0 = \<lparr>console = [], sent = [], prompted = [], reviews = []\<rparr>"

definition console_log :: "message \<Rightarrow> world \<Rightarrow> world" where
  "console_log x w = w\<lparr>console := console w @ [x]\<rparr>"

subsection \<open>\<open>getPRDetails\<close> and \<open>getDiff\<close>\<close>

definition getPRDetails :: "env \<Rightarrow> error + PRDetails" where
  "getPRDetails e =
     (case event_file e of
        None \<Rightarrow> Inl FileError
      | Some text \<Rightarrow>
     (case JSON_parse text of
        None \<Rightarrow> Inl SyntaxError
      | Some ev \<Rightarrow>
     (case getProp (Some ev) (js ''repository'') of
        Inl x \<Rightarrow> Inl x
      | Inr repository \<Rightarrow>
     (case getProp (Some ev) (js ''number'') of
        Inl x \<Rightarrow> Inl x
      | Inr number \<Rightarrow>
     (case getProp repository (js ''owner'') of
        Inl x \<Rightarrow> Inl x
      | Inr own \<Rightarrow>
     (case getProp own (js ''login'') of
        Inl x \<Rightarrow> Inl x
      | Inr login \<Rightarrow>
     (case getProp repository (js ''name'') of
        Inl x \<Rightarrow> Inl x
      | Inr name \<Rightarrow>
     (case pulls_get e login name number of
        None \<Rightarrow> Inl RequestError
      | Some pr \<Rightarrow>
          Inr \<lparr>owner = login, repo = name, pull_number = number,
               title = (case pull_title pr of None \<Rightarrow> [] | Some t \<Rightarrow> t),
               description = (case pull_body pr of None \<Rightarrow> [] | Some b \<Rightarrow> b)\<rparr>))))))))"

text \<open>The result \<open>None\<close> is the \<open>null\<close> returned when the request throws.\<close>

definition getDiff ::
  "env \<Rightarrow> json option \<Rightarrow> json option \<Rightarrow> json option \<Rightarrow> world \<Rightarrow> jsstring option \<times> world" where
  "getDiff e ow re nu w =
     (case pulls_get_diff e ow re nu of
        Some diffData \<Rightarrow> (Some diffData, console_log (LogRetrievedDiff (length diffData)) w)
      | None \<Rightarrow> (None, console_log ErrorFetchingDiff w))"

subsection \<open>\<open>createPrompt\<close>\<close>

text \<open>One line of the restated changes: \<open>${c.ln ? c.ln : c.ln2} ${c.content}\<close>.\<close>

fun changeLine :: "Change \<Rightarrow> jsstring" where
  "changeLine (AddChange n c) =
     (if n \<noteq> 0 then showNat n else js ''undefined'') @ js '' '' @ c"
| "changeLine (DeleteChange n c) =
     (if n \<noteq> 0 then showNat n else js ''undefined'') @ js '' '' @ c"
| "changeLine (NormalChange n1 n2 c) = showNat n2 @ js '' '' @ c"

definition createPrompt :: "File \<Rightarrow> Chunk \<Rightarrow> PRDetails \<Rightarrow> jsstring" where
  \<open>createPrompt file chunk prDetails =
     js (''You are a code reviewer. Review the following code changes and provide feedback.\<newline>''
       @ ''\<newline>''
       @ ''IMPORTANT: You must respond with ONLY a valid JSON object in this exact format:\<newline>''
       @ ''{"reviews": [{"lineNumber": <line_number>, "reviewComment": "<review comment>"}]}\<newline>''
       @ ''\<newline>''
       @ ''Rules:\<newline>''
       @ ''- If there are issues to address, include them in the "reviews" array\<newline>''
       @ ''- If the code looks good, return: {"reviews": []}\<newline>''
       @ ''- Do not give positive comments or compliments\<newline>''
       @ ''- Do not suggest adding comments to the code\<newline>''
       @ ''- Write review comments in GitHub Markdown format\<newline>''
       @ ''- Each review must have a "lineNumber" (number) and "reviewComment" (string)\<newline>''
       @ ''\<newline>''
       @ ''Pull Request Context:\<newline>''
       @ ''Title: '')
     @ title prDetails
     @ js ''\<newline>Description: ''
     @ (if description prDetails \<noteq> [] then description prDetails
        else js ''No description provided'')
     @ js ''\<newline>\<newline>File: ''
     @ (case to file of None \<Rightarrow> js ''undefined'' | Some p \<Rightarrow> p)
     @ js ''\<newline>\<newline>Code Changes:\<newline>```diff\<newline>''
     @ content chunk
     @ js ''\<newline>''
     @ join (js ''\<newline>'') (map changeLine (changes chunk))
     @ js ''\<newline>```\<newline>\<newline>Respond with ONLY the JSON object, no other text:''\<close>

subsection \<open>\<open>getAIResponse\<close>\<close>

text \<open>
  \<open>res.match(/\{[\s\S]*\}/)\<close>: the class \<open>[\s\S]\<close> matches every code unit and the star
  is greedy, so the match starts at the first \<open>{\<close> and ends at the last \<open>}\<close> after
  it; without such a \<open>}\<close> there is no match.
\<close>

definition jsonMatch :: "jsstring \<Rightarrow> jsstring option" where
  "jsonMatch res =
     (case dropWhile (\<lambda>c. c \<noteq> 0x7B) res of
        [] \<Rightarrow> None
      | b # r \<Rightarrow>
          if 0x7D \<in> set r then Some (b # rev (dropWhile (\<lambda>c. c \<noteq> 0x7D) (rev r)))
          else None)"

text \<open>
  \<open>response.choices[0].message?.content?.trim() || "{}"\<close>: a TypeError without a first
  choice, \<open>{}\<close> without a message, without a content or with a content that trims to the
  empty string.
\<close>

definition responseText :: "completion \<Rightarrow> error + jsstring" where
  "responseText choices =
     (case choices of
        [] \<Rightarrow> Inl TypeError
      | message # rest \<Rightarrow>
          (case message of
             None \<Rightarrow> Inr (js ''{}'')
           | Some None \<Rightarrow> Inr (js ''{}'')
           | Some (Some c) \<Rightarrow> Inr (if trim c \<noteq> [] then trim c else js ''{}'')))"

text \<open>
  The statements of the \<open>try\<close> block after \<open>res\<close> is assigned: the candidate text, the
  parse, and \<open>parsed.reviews || []\<close>. The world is returned with the error, for the
  console lines written before it.
\<close>

definition parseResponse :: "jsstring \<Rightarrow> world \<Rightarrow> (error + json) \<times> world" where
  "parseResponse res w =
     (let w1 = console_log (LogRawResponse (take 500 res)) w;
          jsonStr = (case jsonMatch res of None \<Rightarrow> res | Some m \<Rightarrow> m)
      in case JSON_parse jsonStr of
           None \<Rightarrow> (Inl SyntaxError, w1)
         | Some parsed \<Rightarrow>
             (let w2 = console_log (LogParsedResponse parsed) w1 in
              case getProp (Some parsed) (js ''reviews'') of
                Inl x \<Rightarrow> (Inl x, w2)
              | Inr r \<Rightarrow> (Inr (if truthy r then the r else JArray []), w2)))"

text \<open>The \<open>catch\<close> block: two lines on the console and the result \<open>null\<close>.\<close>

definition failed :: "error \<Rightarrow> jsstring \<Rightarrow> world \<Rightarrow> json \<times> world" where
  "failed x res w =
     (JNull, console_log (ErrorFailedText (take 500 res)) (console_log (ErrorInGetAIResponse x) w))"

definition getAIResponse :: "env \<Rightarrow> jsstring \<Rightarrow> world \<Rightarrow> json \<times> world" where
  "getAIResponse e prompt w =
     (let w0 = w\<lparr>sent := sent w @ [prompt]\<rparr> in
      case chat_completions_create e (length (sent w)) prompt of
        None \<Rightarrow> failed RequestError (js ''{}'') w0
      | Some response \<Rightarrow>
          (case responseText response of
             Inl x \<Rightarrow> failed x (js ''{}'') w0
           | Inr res \<Rightarrow>
               (case parseResponse res w0 of
                  (Inl x, w1) \<Rightarrow> failed x res w1
                | (Inr v, w1) \<Rightarrow> (v, w1))))"

subsection \<open>\<open>createComment\<close>\<close>

text \<open>
  The callback of \<open>flatMap\<close>: nothing for a file without a destination path, else one
  comment; reading \<open>reviewComment\<close> of \<open>null\<close> throws, and so may \<open>Number\<close>.
\<close>

definition commentOf :: "File \<Rightarrow> json \<Rightarrow> error + ReviewComment list" where
  "commentOf file aiResponse =
     (case to file of
        None \<Rightarrow> Inr []
      | Some p \<Rightarrow>
          if p = [] then Inr []
          else (case getProp (Some aiResponse) (js ''reviewComment'') of
                  Inl x \<Rightarrow> Inl x
                | Inr b \<Rightarrow>
                    (case getProp (Some aiResponse) (js ''lineNumber'') of
                       Inl x \<Rightarrow> Inl x
                     | Inr n \<Rightarrow>
                         (case Number n of
                            Inl x \<Rightarrow> Inl x
                          | Inr l \<Rightarrow> Inr [\<lparr>body = b, path = p, line = l\<rparr>]))))"

fun flatMap :: "('a \<Rightarrow> error + 'b list) \<Rightarrow> 'a list \<Rightarrow> error + 'b list" where
  "flatMap f [] = Inr []"
| "flatMap f (x # xs) =
     (case f x of
        Inl e \<Rightarrow> Inl e
      | Inr ys \<Rightarrow> (case flatMap f xs of Inl e \<Rightarrow> Inl e | Inr zs \<Rightarrow> Inr (ys @ zs)))"

text \<open>Only an array has the method \<open>flatMap\<close>; calling it on another value throws.\<close>

fun createComment :: "File \<Rightarrow> Chunk \<Rightarrow> json \<Rightarrow> error + ReviewComment list" where
  "createComment file chunk (JArray aiResponses) = flatMap (commentOf file) aiResponses"
| "createComment file chunk _ = Inl TypeError"

subsection \<open>\<open>analyzeCode\<close>\<close>

text \<open>
  The inner loop, over the hunks of one file, and the outer loop, over the files. The test
  \<open>if (newComments)\<close> is on an array, which is always truthy.
\<close>

fun analyzeChunks ::
  "env \<Rightarrow> PRDetails \<Rightarrow> File \<Rightarrow> Chunk list \<Rightarrow> ReviewComment list \<Rightarrow> world
     \<Rightarrow> (error + ReviewComment list) \<times> world" where
  "analyzeChunks e prDetails file [] comments w = (Inr comments, w)"
| "analyzeChunks e prDetails file (chunk # rest) comments w =
     (let prompt = createPrompt file chunk prDetails;
          (aiResponse, w1) = getAIResponse e prompt (w\<lparr>prompted := prompted w @ [(file, chunk)]\<rparr>);
          w2 = console_log (LogAIResponse (to file) aiResponse) w1
      in if truthy (Some aiResponse) then
           (case createComment file chunk aiResponse of
              Inl x \<Rightarrow> (Inl x, w2)
            | Inr newComments \<Rightarrow>
                analyzeChunks e prDetails file rest (comments @ newComments)
                  (console_log (LogGenerated (length newComments) (to file)) w2))
         else analyzeChunks e prDetails file rest comments w2)"

fun analyzeFiles ::
  "env \<Rightarrow> PRDetails \<Rightarrow> File list \<Rightarrow> ReviewComment list \<Rightarrow> world
     \<Rightarrow> (error + ReviewComment list) \<times> world" where
  "analyzeFiles e prDetails [] comments w = (Inr comments, w)"
| "analyzeFiles e prDetails (file # rest) comments w =
     (if to file = Some (js ''/dev/null'') then analyzeFiles e prDetails rest comments w
      else (case analyzeChunks e prDetails file (chunks file) comments
                   (console_log (LogAnalyzingFile (to file)) w) of
              (Inl x, w1) \<Rightarrow> (Inl x, w1)
            | (Inr comments1, w1) \<Rightarrow> analyzeFiles e prDetails rest comments1 w1))"

definition analyzeCode ::
  "env \<Rightarrow> File list \<Rightarrow> PRDetails \<Rightarrow> world \<Rightarrow> (error + ReviewComment list) \<times> world" where
  "analyzeCode e parsedDiff prDetails w =
     (case analyzeFiles e prDetails parsedDiff [] w of
        (Inl x, w1) \<Rightarrow> (Inl x, w1)
      | (Inr comments, w1) \<Rightarrow> (Inr comments, console_log (LogTotal (length comments)) w1))"

subsection \<open>\<open>createReviewComment\<close> and \<open>main\<close>\<close>

definition createReviewComment ::
  "env \<Rightarrow> json option \<Rightarrow> json option \<Rightarrow> json option \<Rightarrow> ReviewComment list \<Rightarrow> world
     \<Rightarrow> (error + unit) \<times> world" where
  "createReviewComment e ow re nu comments w =
     (let r = CreateReview ow re nu comments; w1 = w\<lparr>reviews := reviews w @ [r]\<rparr> in
      if pulls_createReview e r then (Inr (), w1) else (Inl RequestError, w1))"

text \<open>
  A run ends with the exit status of the process: \<open>0\<close> when \<open>main\<close> returns, \<open>1\<close>
  from the handler of a rejected \<open>main\<close>, which writes the error first.
\<close>

definition exitFailure :: "error \<Rightarrow> world \<Rightarrow> nat \<times> world" where
  "exitFailure x w = (1, console_log (ErrorMain x) w)"

text \<open>The exclusion patterns and the filter of \<open>main\<close>.\<close>

definition excludePatterns :: "env \<Rightarrow> jsstring list" where
  "excludePatterns e = map trim (splitOn 0x2C (exclude e))"

definition filteredDiff :: "env \<Rightarrow> File list \<Rightarrow> File list" where
  "filteredDiff e parsedDiff =
     filter (\<lambda>file. \<not> list_ex (\<lambda>pattern.
         minimatch e (case to file of None \<Rightarrow> [] | Some p \<Rightarrow> p) pattern) (excludePatterns e))
       parsedDiff"

text \<open>
  \<open>main\<close> up to the call of \<open>analyzeCode\<close>: either the run has ended with an exit
  status, or the pull request and the filtered files are there. The two console lines
  that write \<open>action\<close> and \<open>pull_number\<close> into a template literal are taken to
  convert them to text without throwing.
\<close>

definition prepare :: "env \<Rightarrow> world \<Rightarrow> (nat + PRDetails \<times> File list) \<times> world" where
  "prepare e w =
     (case getPRDetails e of
        Inl x \<Rightarrow> (Inl 1, console_log (ErrorMain x) w)
      | Inr prDetails \<Rightarrow>
     (case event_file e of
        None \<Rightarrow> (Inl 1, console_log (ErrorMain FileError) w)
      | Some text \<Rightarrow>
     (case JSON_parse text of
        None \<Rightarrow> (Inl 1, console_log (ErrorMain SyntaxError) w)
      | Some eventData \<Rightarrow>
     (case getProp (Some eventData) (js ''action'') of
        Inl x \<Rightarrow> (Inl 1, console_log (ErrorMain x) w)
      | Inr action \<Rightarrow>
          (let w1 = console_log (LogEventAction action) w in
           if action = Some (JString (js ''opened'')) \<or> action = Some (JString (js ''synchronize''))
           then
             (let w2 = console_log (LogFetching (pull_number prDetails)) w1;
                  (diff, w3) = getDiff e (owner prDetails) (repo prDetails)
                                 (pull_number prDetails) w2
              in case diff of
                   None \<Rightarrow> (Inl 0, console_log LogNoDiff w3)
                 | Some d \<Rightarrow>
                     if d = [] then (Inl 0, console_log LogNoDiff w3)
                     else
                       (let w4 = console_log (LogDiffSize (length d)) w3;
                            parsedDiff = parseDiff e d;
                            files = filteredDiff e parsedDiff;
                            w5 = console_log (LogFound (length parsedDiff) (length files)) w4;
                            w6 = console_log (LogFilesToAnalyze (map to files)) w5
                        in (Inr (prDetails, files), w6)))
           else (Inl 0, console_log (LogUnsupported action) w1))))))"

text \<open>\<open>main\<close> after the call of \<open>analyzeCode\<close>.\<close>

definition submit ::
  "env \<Rightarrow> PRDetails \<Rightarrow> (error + ReviewComment list) \<times> world \<Rightarrow> nat \<times> world" where
  "submit e prDetails r =
     (case r of
        (Inl x, w) \<Rightarrow> exitFailure x w
      | (Inr comments, w) \<Rightarrow>
          if length comments > 0 then
            (case createReviewComment e (owner prDetails) (repo prDetails)
                    (pull_number prDetails) comments
                    (console_log (LogPosting (length comments)) w) of
               (Inl x, w1) \<Rightarrow> exitFailure x w1
             | (Inr u, w1) \<Rightarrow> (0, console_log LogPosted w1))
          else (0, console_log LogNoIssues w))"

definition main :: "env \<Rightarrow> nat \<times> world" where
  "main e =
     (case prepare e world0 of
        (Inl status, w) \<Rightarrow> (status, w)
      | (Inr (prDetails, files), w) \<Rightarrow> submit e prDetails (analyzeCode e files prDetails w))"

subsection \<open>Sample data\<close>

text \<open>
  A hunk, a file with the destination \<open>a.ts\<close>, a deleted file, a pull request, an
  event file and what it parses to, and an environment in which the diff request gives \<open>diff\<close> and the model
  answers every prompt with \<open>answer\<close>.
\<close>

definition exampleChunk :: Chunk where
  "exampleChunk =
     \<lparr>content = js ''@@ -1,2 +1,2 @@'',
      changes = [NormalChange 1 1 (js '' a''), DeleteChange 2 (js ''-b''), AddChange 2 (js ''+c'')],
      oldStart = 1, oldLines = 2, newStart = 1, newLines = 2\<rparr>"

definition exampleFile :: File where
  "exampleFile =
     \<lparr>to = Some (js ''a.ts''), from_path = Some (js ''a.ts''), chunks = [exampleChunk],
      additions = 1, deletions = 1\<rparr>"

definition deletedFile :: File where
  "deletedFile =
     \<lparr>to = Some (js ''/dev/null''), from_path = Some (js ''b.ts''), chunks = [exampleChunk],
      additions = 0, deletions = 2\<rparr>"

definition examplePR :: PRDetails where
  "examplePR =
     \<lparr>owner = Some (JString (js ''o'')), repo = Some (JString (js ''r'')),
      pull_number = Some (JNumber (Fin 7)), title = js ''T'', description = []\<rparr>"

definition exampleEvent :: jsstring where
  \<open>exampleEvent =
     js ''{"action":"opened","number":7,"repository":{"name":"r","owner":{"login":"o"}}}''\<close>

definition exampleEventJson :: json where
  "exampleEventJson =
     JObject [(js ''action'', JString (js ''opened'')), (js ''number'', JNumber (Fin 7)),
       (js ''repository'',
          JObject [(js ''name'', JString (js ''r'')),
                   (js ''owner'', JObject [(js ''login'', JString (js ''o''))])])]"

definition exampleEnv :: "jsstring option \<Rightarrow> jsstring \<Rightarrow> env" where
  "exampleEnv diff answer =
     \<lparr>event_file = Some exampleEvent,
      pulls_get = (\<lambda>ow re nu. Some \<lparr>pull_title = Some (js ''T''), pull_body = None\<rparr>),
      pulls_get_diff = (\<lambda>ow re nu. diff),
      parseDiff = (\<lambda>d. [deletedFile, exampleFile]),
      exclude = [],
      minimatch = (\<lambda>p pattern. False),
      chat_completions_create = (\<lambda>n prompt. Some [Some (Some answer)]),
      pulls_createReview = (\<lambda>r. True)\<rparr>"

text \<open>
  The value that \<open>getAIResponse\<close> returns for the response text \<open>res\<close>, without the
  console: \<open>null\<close> for a text that does not parse and for the parsed value \<open>null\<close>.
\<close>

definition reviewsOf :: "jsstring \<Rightarrow> json" where
  "reviewsOf res =
     (case JSON_parse (case jsonMatch res of None \<Rightarrow> res | Some m \<Rightarrow> m) of
        None \<Rightarrow> JNull
      | Some parsed \<Rightarrow>
          (case getProp (Some parsed) (js ''reviews'') of
             Inl x \<Rightarrow> JNull
           | Inr r \<Rightarrow> if truthy r then the r else JArray []))"

section \<open>Properties\<close>

subsection \<open>Effects and value of \<open>getAIResponse\<close>\<close>

lemma console_log_fields:
  "sent (console_log x w) = sent w"
  "prompted (console_log x w) = prompted w"
  "reviews (console_log x w) = reviews w"
  "console (console_log x w) = console w @ [x]"
  by (simp_all add: console_log_def)

lemma failed_fields:
  "fst (failed x res w) = JNull"
  "sent (snd (failed x res w)) = sent w"
  "prompted (snd (failed x res w)) = prompted w"
  "reviews (snd (failed x res w)) = reviews w"
  by (simp_all add: failed_def console_log_fields)

lemma parseResponse_fields:
  "sent (snd (parseResponse res w)) = sent w"
  "prompted (snd (parseResponse res w)) = prompted w"
  "reviews (snd (parseResponse res w)) = reviews w"
  by (simp_all add: parseResponse_def Let_def console_log_fields split: option.splits sum.splits)

lemma parseResponse_value:
  "fst (parseResponse res w) =
     (case JSON_parse (case jsonMatch res of None \<Rightarrow> res | Some m \<Rightarrow> m) of
        None \<Rightarrow> Inl SyntaxError
      | Some parsed \<Rightarrow>
          (case getProp (Some parsed) (js ''reviews'') of
             Inl x \<Rightarrow> Inl x
           | Inr r \<Rightarrow> Inr (if truthy r then the r else JArray [])))"
  by (simp add: parseResponse_def Let_def split: option.splits sum.splits)

lemma getAIResponse_value:
  "fst (getAIResponse e prompt w) =
     (case chat_completions_create e (length (sent w)) prompt of
        None \<Rightarrow> JNull
      | Some response \<Rightarrow>
          (case responseText response of
             Inl x \<Rightarrow> JNull
           | Inr res \<Rightarrow> reviewsOf res))"
proof -
  have "fst (case parseResponse res w0 of
               (Inl x, w1) \<Rightarrow> failed x res w1
             | (Inr v, w1) \<Rightarrow> (v, w1)) = reviewsOf res" for res w0
    using parseResponse_value [of res w0]
    by (cases "parseResponse res w0")
       (auto simp: reviewsOf_def failed_fields split: option.splits sum.splits)
  then show ?thesis
    by (simp add: getAIResponse_def Let_def failed_fields split: option.splits sum.splits)
qed

lemma getAIResponse_fields:
  "sent (snd (getAIResponse e prompt w)) = sent w @ [prompt]"
  "prompted (snd (getAIResponse e prompt w)) = prompted w"
  "reviews (snd (getAIResponse e prompt w)) = reviews w"
proof -
  let ?k = "\<lambda>res w0. snd (case parseResponse res w0 of
                                (Inl x, w1) \<Rightarrow> failed x res w1
                              | (Inr v, w1) \<Rightarrow> (v, w1))"
  have *: "sent (?k res w0) = sent w0 \<and> prompted (?k res w0) = prompted w0
             \<and> reviews (?k res w0) = reviews w0" for res w0
    using parseResponse_fields [of res w0]
    by (cases "parseResponse res w0") (auto simp: failed_fields split: sum.splits)
  show "sent (snd (getAIResponse e prompt w)) = sent w @ [prompt]"
    "prompted (snd (getAIResponse e prompt w)) = prompted w"
    "reviews (snd (getAIResponse e prompt w)) = reviews w"
    by (simp_all add: getAIResponse_def Let_def failed_fields * split: option.splits sum.splits)
qed

lemma exampleEnv_answer:
  "chat_completions_create (exampleEnv d answer) n prompt = Some [Some (Some answer)]"
  by (simp add: exampleEnv_def)

lemma trim_whitespace:
  assumes "\<forall>x\<in>set c. isWhiteSpace x"
  shows "trim c = []"
proof -
  have d: "dropWhile isWhiteSpace c = []"
    using assms by (induction c) simp_all
  show ?thesis
    unfolding trim_def d by simp
qed

lemma jsonMatch_braces:
  assumes "0x7B \<notin> set pre" and "0x7D \<notin> set post"
  shows "jsonMatch (pre @ [0x7B] @ mid @ [0x7D] @ post) = Some ([0x7B] @ mid @ [0x7D])"
proof -
  have "dropWhile (\<lambda>c. c \<noteq> 0x7B) (pre @ [0x7B] @ mid @ [0x7D] @ post)
          = 0x7B # (mid @ [0x7D] @ post)"
    using assms(1) by (auto simp: dropWhile_append3)
  moreover have "dropWhile (\<lambda>c. c \<noteq> 0x7D) (rev (mid @ [0x7D] @ post)) = 0x7D # rev mid"
    using assms(2) by (auto simp: dropWhile_append3)
  ultimately show ?thesis
    by (simp add: jsonMatch_def)
qed

lemma getProp_property: "v \<noteq> JNull \<Longrightarrow> getProp (Some v) k = Inr (property v k)"
  by (cases v) simp_all

lemma flatMap_single:
  assumes "\<And>x. x \<in> set xs \<Longrightarrow> f x = Inr [g x]"
  shows "flatMap f xs = Inr (map g xs)"
  using assms by (induction xs) simp_all

subsection \<open>Effects of the loops and of \<open>main\<close>\<close>

lemma analyzeChunks_trace:
  "\<exists>k\<le>length cs.
     prompted (snd (analyzeChunks e pr file cs comments w)) = prompted w @ map (Pair file) (take k cs) \<and>
     sent (snd (analyzeChunks e pr file cs comments w))
       = sent w @ map (\<lambda>c. createPrompt file c pr) (take k cs) \<and>
     reviews (snd (analyzeChunks e pr file cs comments w)) = reviews w"
proof (induction cs arbitrary: comments w)
  case Nil
  then show ?case by simp
next
  case (Cons c cs)
  let ?w0 = "w\<lparr>prompted := prompted w @ [(file, c)]\<rparr>"
  let ?g = "getAIResponse e (createPrompt file c pr) ?w0"
  let ?w2 = "console_log (LogAIResponse (to file) (fst ?g)) (snd ?g)"
  have w2: "prompted ?w2 = prompted w @ [(file, c)]"
    "sent ?w2 = sent w @ [createPrompt file c pr]" "reviews ?w2 = reviews w"
    by (simp_all add: console_log_fields getAIResponse_fields)
  consider (stop) x where "analyzeChunks e pr file (c # cs) comments w = (Inl x, ?w2)"
    | (go) w' cm where "analyzeChunks e pr file (c # cs) comments w = analyzeChunks e pr file cs cm w'"
      "prompted w' = prompted w @ [(file, c)]" "sent w' = sent w @ [createPrompt file c pr]"
      "reviews w' = reviews w"
  proof (cases "truthy (Some (fst ?g))")
    case False
    then have "analyzeChunks e pr file (c # cs) comments w = analyzeChunks e pr file cs comments ?w2"
      by (simp add: Let_def case_prod_beta)
    with w2 show ?thesis using go by blast
  next
    case True
    show ?thesis
    proof (cases "createComment file c (fst ?g)")
      case (Inl x)
      with True have "analyzeChunks e pr file (c # cs) comments w = (Inl x, ?w2)"
        by (simp add: Let_def case_prod_beta)
      then show ?thesis using stop by simp
    next
      case (Inr nc)
      with True have "analyzeChunks e pr file (c # cs) comments w
          = analyzeChunks e pr file cs (comments @ nc)
              (console_log (LogGenerated (length nc) (to file)) ?w2)"
        by (simp add: Let_def case_prod_beta)
      moreover have "prompted (console_log (LogGenerated (length nc) (to file)) ?w2) = prompted w @ [(file, c)]"
        "sent (console_log (LogGenerated (length nc) (to file)) ?w2) = sent w @ [createPrompt file c pr]"
        "reviews (console_log (LogGenerated (length nc) (to file)) ?w2) = reviews w"
        using w2 by (simp_all add: console_log_fields)
      ultimately show ?thesis using go by blast
    qed
  qed
  then show ?case
  proof cases
    case (stop x)
    with w2 show ?thesis
      by (intro exI [of _ 1]) simp
  next
    case (go w' cm)
    from Cons.IH [of cm w'] obtain k where k: "k \<le> length cs"
      "prompted (snd (analyzeChunks e pr file cs cm w')) = prompted w' @ map (Pair file) (take k cs)"
      "sent (snd (analyzeChunks e pr file cs cm w')) = sent w' @ map (\<lambda>c. createPrompt file c pr) (take k cs)"
      "reviews (snd (analyzeChunks e pr file cs cm w')) = reviews w'"
      by blast
    with go show ?thesis
      by (intro exI [of _ "Suc k"]) simp
  qed
qed


lemma analyzeFiles_trace:
  "\<exists>hs. prompted (snd (analyzeFiles e pr fs comments w)) = prompted w @ hs \<and>
        sent (snd (analyzeFiles e pr fs comments w))
          = sent w @ map (\<lambda>(f, c). createPrompt f c pr) hs \<and>
        (\<forall>(f, c)\<in>set hs. f \<in> set fs \<and> to f \<noteq> Some (js ''/dev/null'') \<and> c \<in> set (chunks f)) \<and>
        reviews (snd (analyzeFiles e pr fs comments w)) = reviews w"
proof (induction fs arbitrary: comments w)
  case Nil
  then show ?case by simp
next
  case (Cons f fs)
  show ?case
  proof (cases "to f = Some (js ''/dev/null'')")
    case True
    from Cons.IH [of comments w] obtain hs where
      "prompted (snd (analyzeFiles e pr fs comments w)) = prompted w @ hs"
      "sent (snd (analyzeFiles e pr fs comments w)) = sent w @ map (\<lambda>(f, c). createPrompt f c pr) hs"
      "\<forall>(f, c)\<in>set hs. f \<in> set fs \<and> to f \<noteq> Some (js ''/dev/null'') \<and> c \<in> set (chunks f)"
      "reviews (snd (analyzeFiles e pr fs comments w)) = reviews w"
      by blast
    with True show ?thesis
      by (intro exI [of _ hs]) auto
  next
    case False
    let ?w1 = "console_log (LogAnalyzingFile (to f)) w"
    let ?r = "analyzeChunks e pr f (chunks f) comments ?w1"
    from analyzeChunks_trace [of "chunks f" e pr f comments ?w1] obtain k where k:
      "prompted (snd ?r) = prompted w @ map (Pair f) (take k (chunks f))"
      "sent (snd ?r) = sent w @ map (\<lambda>c. createPrompt f c pr) (take k (chunks f))"
      "reviews (snd ?r) = reviews w"
      by (auto simp: console_log_fields)
    have mem: "\<forall>(g, c)\<in>set (map (Pair f) (take k (chunks f))).
                 g \<in> set (f # fs) \<and> to g \<noteq> Some (js ''/dev/null'') \<and> c \<in> set (chunks g)"
      using False by (auto dest: in_set_takeD)
    have snt: "map (\<lambda>(f, c). createPrompt f c pr) (map (Pair f) (take k (chunks f)))
                 = map (\<lambda>c. createPrompt f c pr) (take k (chunks f))"
      by simp
    show ?thesis
    proof (cases "fst ?r")
      case (Inl x)
      then have "analyzeFiles e pr (f # fs) comments w = (Inl x, snd ?r)"
        using False by (cases ?r) simp
      with k mem snt show ?thesis
        by (intro exI [of _ "map (Pair f) (take k (chunks f))"]) simp
    next
      case (Inr cm)
      then have eq: "analyzeFiles e pr (f # fs) comments w = analyzeFiles e pr fs cm (snd ?r)"
        using False by (cases ?r) simp
      from Cons.IH [of cm "snd ?r"] obtain hs where hs:
        "prompted (snd (analyzeFiles e pr fs cm (snd ?r))) = prompted (snd ?r) @ hs"
        "sent (snd (analyzeFiles e pr fs cm (snd ?r)))
           = sent (snd ?r) @ map (\<lambda>(f, c). createPrompt f c pr) hs"
        "\<forall>(f, c)\<in>set hs. f \<in> set fs \<and> to f \<noteq> Some (js ''/dev/null'') \<and> c \<in> set (chunks f)"
        "reviews (snd (analyzeFiles e pr fs cm (snd ?r))) = reviews (snd ?r)"
        by blast
      from hs(3) mem have
        "\<forall>(g, c)\<in>set (map (Pair f) (take k (chunks f)) @ hs).
           g \<in> set (f # fs) \<and> to g \<noteq> Some (js ''/dev/null'') \<and> c \<in> set (chunks g)"
        by auto
      with eq k hs(1,2,4) snt show ?thesis
        by (intro exI [of _ "map (Pair f) (take k (chunks f)) @ hs"]) simp
    qed
  qed
qed

lemma analyzeFiles_filter:
  "analyzeFiles e pr (filter (\<lambda>f. to f \<noteq> Some (js ''/dev/null'')) fs) comments w
     = analyzeFiles e pr fs comments w"
  by (induction fs arbitrary: comments w) (simp_all split: prod.splits sum.splits)

lemma commentOf_path:
  "commentOf file r = Inr ys \<Longrightarrow> y \<in> set ys \<Longrightarrow> to file = Some (path y)"
  by (auto simp: commentOf_def split: option.splits if_splits sum.splits)

lemma flatMap_path:
  "flatMap (commentOf file) rs = Inr ys \<Longrightarrow> y \<in> set ys \<Longrightarrow> to file = Some (path y)"
proof (induction rs arbitrary: ys)
  case Nil
  then show ?case by simp
next
  case (Cons r rs)
  then show ?case
    by (auto split: sum.splits dest: commentOf_path)
qed

lemma createComment_path:
  "createComment file chunk v = Inr ys \<Longrightarrow> y \<in> set ys \<Longrightarrow> to file = Some (path y)"
  by (cases v) (auto dest: flatMap_path)

lemma analyzeChunks_paths:
  assumes "to file \<noteq> Some (js ''/dev/null'')"
    and "\<forall>c\<in>set comments. path c \<noteq> js ''/dev/null''"
    and "fst (analyzeChunks e pr file cs comments w) = Inr out"
  shows "\<forall>c\<in>set out. path c \<noteq> js ''/dev/null''"
  using assms(2,3)
proof (induction cs arbitrary: comments w)
  case Nil
  then show ?case by simp
next
  case (Cons c cs)
  let ?g = "getAIResponse e (createPrompt file c pr) (w\<lparr>prompted := prompted w @ [(file, c)]\<rparr>)"
  let ?w2 = "console_log (LogAIResponse (to file) (fst ?g)) (snd ?g)"
  show ?case
  proof (cases "truthy (Some (fst ?g))")
    case False
    then have "analyzeChunks e pr file (c # cs) comments w = analyzeChunks e pr file cs comments ?w2"
      by (simp add: Let_def case_prod_beta)
    with Cons show ?thesis by simp
  next
    case True
    show ?thesis
    proof (cases "createComment file c (fst ?g)")
      case (Inl x)
      with True have "analyzeChunks e pr file (c # cs) comments w = (Inl x, ?w2)"
        by (simp add: Let_def case_prod_beta)
      with Cons.prems show ?thesis by simp
    next
      case (Inr nc)
      with True have eq: "analyzeChunks e pr file (c # cs) comments w
          = analyzeChunks e pr file cs (comments @ nc)
              (console_log (LogGenerated (length nc) (to file)) ?w2)"
        by (simp add: Let_def case_prod_beta)
      have "\<forall>c\<in>set (comments @ nc). path c \<noteq> js ''/dev/null''"
        using Cons.prems(1) createComment_path [OF Inr] assms(1) by auto
      from Cons.IH [OF this] eq Cons.prems(2) show ?thesis by simp
    qed
  qed
qed

lemma analyzeFiles_paths:
  assumes "\<forall>c\<in>set comments. path c \<noteq> js ''/dev/null''"
    and "fst (analyzeFiles e pr fs comments w) = Inr out"
  shows "\<forall>c\<in>set out. path c \<noteq> js ''/dev/null''"
  using assms
proof (induction fs arbitrary: comments w)
  case Nil
  then show ?case by simp
next
  case (Cons f fs)
  show ?case
  proof (cases "to f = Some (js ''/dev/null'')")
    case True
    with Cons show ?thesis by simp
  next
    case False
    let ?r = "analyzeChunks e pr f (chunks f) comments (console_log (LogAnalyzingFile (to f)) w)"
    show ?thesis
    proof (cases "fst ?r")
      case (Inl x)
      then have "analyzeFiles e pr (f # fs) comments w = (Inl x, snd ?r)"
        using False by (cases ?r) simp
      with Cons.prems show ?thesis by simp
    next
      case (Inr cm)
      then have eq: "analyzeFiles e pr (f # fs) comments w = analyzeFiles e pr fs cm (snd ?r)"
        using False by (cases ?r) simp
      have "\<forall>c\<in>set cm. path c \<noteq> js ''/dev/null''"
        using analyzeChunks_paths [OF False Cons.prems(1) Inr] .
      from Cons.IH [OF this] eq Cons.prems(2) show ?thesis by simp
    qed
  qed
qed

lemma analyzeCode_reviews: "reviews (snd (analyzeCode e fs pr w)) = reviews w"
proof -
  from analyzeFiles_trace [of e pr fs "[]" w]
  have "reviews (snd (analyzeFiles e pr fs [] w)) = reviews w"
    by blast
  then show ?thesis
    by (cases "analyzeFiles e pr fs [] w"; cases "fst (analyzeFiles e pr fs [] w)")
       (simp_all add: analyzeCode_def console_log_fields)
qed

lemma getDiff_fields:
  "sent (snd (getDiff e ow re nu w)) = sent w"
  "prompted (snd (getDiff e ow re nu w)) = prompted w"
  "reviews (snd (getDiff e ow re nu w)) = reviews w"
  by (simp_all add: getDiff_def console_log_fields split: option.splits)

lemma prepare_reviews: "reviews (snd (prepare e w)) = reviews w"
  by (simp add: prepare_def Let_def case_prod_beta console_log_fields getDiff_fields
      split: option.splits sum.splits)

lemma submit_reviews:
  "reviews (snd (submit e pr (r, w))) =
     (case r of
        Inl x \<Rightarrow> reviews w
      | Inr comments \<Rightarrow>
          if comments = [] then reviews w
          else reviews w @ [CreateReview (owner pr) (repo pr) (pull_number pr) comments])"
  by (simp add: submit_def exitFailure_def createReviewComment_def Let_def console_log_fields
      split: sum.splits)

subsection \<open>The sample run\<close>

lemma exampleEvent_parse: "JSON_parse exampleEvent = Some exampleEventJson"
  by code_simp

lemma exampleEvent_action:
  "getProp (Some exampleEventJson) (js ''action'') = Inr (Some (JString (js ''opened'')))"
  by (simp add: exampleEventJson_def)

lemma exampleEvent_number:
  "getProp (Some exampleEventJson) (js ''number'') = Inr (Some (JNumber (Fin 7)))"
  by (simp add: exampleEventJson_def js_def)

lemma exampleEvent_repository:
  "getProp (Some exampleEventJson) (js ''repository'') =
     Inr (Some (JObject [(js ''name'', JString (js ''r'')),
                         (js ''owner'', JObject [(js ''login'', JString (js ''o''))])]))"
  by (simp add: exampleEventJson_def js_def)

lemma exampleEvent_name:
  "getProp (Some (JObject [(js ''name'', JString (js ''r'')),
                           (js ''owner'', JObject [(js ''login'', JString (js ''o''))])]))
     (js ''name'') = Inr (Some (JString (js ''r'')))"
  by (simp add: js_def)

lemma exampleEvent_owner:
  "getProp (Some (JObject [(js ''name'', JString (js ''r'')),
                           (js ''owner'', JObject [(js ''login'', JString (js ''o''))])]))
     (js ''owner'') = Inr (Some (JObject [(js ''login'', JString (js ''o''))]))"
  by (simp add: js_def)

lemma exampleEvent_login:
  "getProp (Some (JObject [(js ''login'', JString (js ''o''))])) (js ''login'')
     = Inr (Some (JString (js ''o'')))"
  by simp

lemmas exampleEvent_props =
  exampleEvent_action exampleEvent_number exampleEvent_repository exampleEvent_name
  exampleEvent_owner exampleEvent_login

lemma getPRDetails_example: "getPRDetails (exampleEnv d a) = Inr examplePR"
proof -
  have e: "event_file (exampleEnv d a) = Some exampleEvent"
    and g: "pulls_get (exampleEnv d a) ow re nu
              = Some \<lparr>pull_title = Some (js ''T''), pull_body = None\<rparr>" for ow re nu
    by (simp_all add: exampleEnv_def)
  show ?thesis
    unfolding getPRDetails_def e exampleEvent_parse exampleEvent_props g option.case sum.case
    by (simp add: examplePR_def)
qed

lemma example_paths:
  "to deletedFile = Some (js ''/dev/null'')" "to exampleFile = Some (js ''a.ts'')"
  "js ''a.ts'' \<noteq> js ''/dev/null''" "chunks exampleFile = [exampleChunk]"
  by (simp_all add: deletedFile_def exampleFile_def js_def)

lemma filteredDiff_example: "filteredDiff (exampleEnv d a) fs = fs"
  by (simp add: filteredDiff_def exampleEnv_def list_ex_iff)

lemma prepare_example:
  assumes "d \<noteq> []"
  shows "fst (prepare (exampleEnv (Some d) a) world0) = Inr (examplePR, [deletedFile, exampleFile])"
proof -
  have o: "js ''opened'' \<noteq> js ''synchronize''"
    by (simp add: js_def)
  have e: "event_file (exampleEnv (Some d) a) = Some exampleEvent"
    by (simp add: exampleEnv_def)
  have f: "pulls_get_diff (exampleEnv (Some d) a) ow re nu = Some d"
    "parseDiff (exampleEnv (Some d) a) d = [deletedFile, exampleFile]" for ow re nu
    by (simp_all add: exampleEnv_def)
  show ?thesis
    unfolding prepare_def getPRDetails_example e exampleEvent_parse exampleEvent_props
      option.case sum.case
    using assms by (simp add: getDiff_def Let_def filteredDiff_example o f)
qed

lemma getAIResponse_example:
  assumes "responseText [Some (Some a)] = Inr t"
  shows "fst (getAIResponse (exampleEnv d a) p w) = reviewsOf t"
  using assms by (simp add: getAIResponse_value exampleEnv_answer)

lemma analyzeCode_example:
  assumes "responseText [Some (Some a)] = Inr t"
  shows "fst (analyzeCode (exampleEnv d a) [deletedFile, exampleFile] pr w) =
           (if truthy (Some (reviewsOf t)) then createComment exampleFile exampleChunk (reviewsOf t)
            else Inr [])"
    and "prompted (snd (analyzeCode (exampleEnv d a) [deletedFile, exampleFile] pr w))
           = prompted w @ [(exampleFile, exampleChunk)]"
proof -
  let ?e = "exampleEnv d a"
  let ?w1 = "console_log (LogAnalyzingFile (to exampleFile)) w"
  have g: "fst (getAIResponse ?e p w') = reviewsOf t" for p w'
    using assms by (rule getAIResponse_example)
  have c: "analyzeChunks ?e pr exampleFile [exampleChunk] [] ?w1 =
      (let g = getAIResponse ?e (createPrompt exampleFile exampleChunk pr)
                 (?w1\<lparr>prompted := prompted ?w1 @ [(exampleFile, exampleChunk)]\<rparr>);
           w2 = console_log (LogAIResponse (to exampleFile) (fst g)) (snd g)
       in if truthy (Some (reviewsOf t)) then
            (case createComment exampleFile exampleChunk (reviewsOf t) of
               Inl x \<Rightarrow> (Inl x, w2)
             | Inr nc \<Rightarrow> (Inr nc, console_log (LogGenerated (length nc) (to exampleFile)) w2))
          else (Inr [], w2))"
    by (simp add: Let_def case_prod_beta g split: sum.splits)
  have f: "analyzeFiles ?e pr [deletedFile, exampleFile] [] w =
      (case analyzeChunks ?e pr exampleFile [exampleChunk] [] ?w1 of
         (Inl x, w1) \<Rightarrow> (Inl x, w1)
       | (Inr cs, w1) \<Rightarrow> (Inr cs, w1))"
    by (simp add: example_paths split: prod.splits sum.splits)
  show "fst (analyzeCode ?e [deletedFile, exampleFile] pr w) =
           (if truthy (Some (reviewsOf t)) then createComment exampleFile exampleChunk (reviewsOf t)
            else Inr [])"
    unfolding analyzeCode_def f c
    by (simp add: Let_def split: sum.splits)
  show "prompted (snd (analyzeCode ?e [deletedFile, exampleFile] pr w))
           = prompted w @ [(exampleFile, exampleChunk)]"
    unfolding analyzeCode_def f c
    by (simp add: Let_def console_log_fields getAIResponse_fields split: sum.splits)
qed

lemma main_after_prepare:
  assumes "fst (prepare e world0) = Inr (pr, files)"
  shows "reviews (snd (main e)) =
           (case fst (analyzeCode e files pr (snd (prepare e world0))) of
              Inl x \<Rightarrow> []
            | Inr cs \<Rightarrow> if cs = [] then []
                        else [CreateReview (owner pr) (repo pr) (pull_number pr) cs])"
    and "fst (analyzeCode e files pr (snd (prepare e world0))) = Inl x \<Longrightarrow> fst (main e) = 1"
proof -
  obtain w where p: "prepare e world0 = (Inr (pr, files), w)"
    using assms by (cases "prepare e world0") simp
  let ?a = "analyzeCode e files pr w"
  have w: "snd (prepare e world0) = w"
    by (simp add: p)
  have "reviews world0 = []"
    by (simp add: world0_def)
  then have "reviews w = []"
    using prepare_reviews [of e world0] by (simp add: p)
  then have r: "reviews (snd ?a) = []"
    by (simp add: analyzeCode_reviews)
  have m: "main e = submit e pr (fst ?a, snd ?a)"
    by (simp add: main_def p)
  show "reviews (snd (main e)) =
           (case fst (analyzeCode e files pr (snd (prepare e world0))) of
              Inl x \<Rightarrow> []
            | Inr cs \<Rightarrow> if cs = [] then []
                        else [CreateReview (owner pr) (repo pr) (pull_number pr) cs])"
    unfolding w m submit_reviews using r by (simp split: sum.splits)
  show "fst (analyzeCode e files pr (snd (prepare e world0))) = Inl x \<Longrightarrow> fst (main e) = 1"
    unfolding w m by (simp add: submit_def exitFailure_def)
qed

subsection \<open>The comment mapper\<close>

text \<open>
  C1, as the code has it: \<open>createComment\<close> excludes no entry on account of its
  \<open>lineNumber\<close>. For a file with a destination path and entries that are not \<open>null\<close>
  and whose \<open>lineNumber\<close> is a string or absent, it gives exactly one comment for each
  entry, in order, with the line \<open>Number(lineNumber)\<close>: the value of the string as a
  numeric literal, which is \<open>NaN\<close> for \<open>abc\<close> and 0 for the empty string, and
  \<open>NaN\<close> for an absent one.
\<close>

theorem createComment_keeps_every_entry:
  assumes "to file = Some p" and "p \<noteq> []"
    and "\<forall>r\<in>set rs. r \<noteq> JNull \<and>
           (property r (js ''lineNumber'') = None \<or>
            (\<exists>s. property r (js ''lineNumber'') = Some (JString s)))"
  shows "createComment file chunk (JArray rs) =
           Inr (map (\<lambda>r. \<lparr>body = property r (js ''reviewComment''), path = p,
                          line = (case property r (js ''lineNumber'') of
                                    Some (JString s) \<Rightarrow> StringToNumber s
                                  | _ \<Rightarrow> NaN)\<rparr>) rs) \<and>
         StringToNumber (js ''abc'') = NaN \<and> StringToNumber [] = Fin 0"
proof -
  have "commentOf file r =
          Inr [\<lparr>body = property r (js ''reviewComment''), path = p,
                line = (case property r (js ''lineNumber'') of
                          Some (JString s) \<Rightarrow> StringToNumber s
                        | _ \<Rightarrow> NaN)\<rparr>]"
    if "r \<in> set rs" for r
  proof -
    from that assms(3) have r: "r \<noteq> JNull"
      and n: "property r (js ''lineNumber'') = None \<or>
              (\<exists>s. property r (js ''lineNumber'') = Some (JString s))"
      by auto
    from n show ?thesis
      using assms(1,2) r by (auto simp: commentOf_def getProp_property)
  qed
  then have "createComment file chunk (JArray rs) =
           Inr (map (\<lambda>r. \<lparr>body = property r (js ''reviewComment''), path = p,
                          line = (case property r (js ''lineNumber'') of
                                    Some (JString s) \<Rightarrow> StringToNumber s
                                  | _ \<Rightarrow> NaN)\<rparr>) rs)"
    by (simp add: flatMap_single)
  moreover have "StringToNumber (js ''abc'') = NaN"
    by code_simp
  moreover have "StringToNumber [] = Fin 0"
    by (simp add: StringToNumber_def trim_def)
  ultimately show ?thesis
    by simp
qed

theorem createComment_keeps_every_entry_witness:
  \<open>createComment exampleFile exampleChunk
      (JArray [JObject [(js ''lineNumber'', JString (js ''7'')),
                        (js ''reviewComment'', JString (js ''x''))],
               JObject [(js ''reviewComment'', JString (js ''y''))]])
    = Inr [\<lparr>body = Some (JString (js ''x'')), path = js ''a.ts'', line = Fin 7\<rparr>,
           \<lparr>body = Some (JString (js ''y'')), path = js ''a.ts'', line = NaN\<rparr>]\<close>
proof -
  have a: "to exampleFile = Some (js ''a.ts'')"
    by (simp add: exampleFile_def)
  have b: "js ''a.ts'' \<noteq> []"
    by (simp add: js_def)
  have d: "js ''lineNumber'' \<noteq> js ''reviewComment''" "js ''reviewComment'' \<noteq> js ''lineNumber''"
    by (simp_all add: js_def)
  have c: \<open>\<forall>r\<in>set [JObject [(js ''lineNumber'', JString (js ''7'')),
                             (js ''reviewComment'', JString (js ''x''))],
                    JObject [(js ''reviewComment'', JString (js ''y''))]].
             r \<noteq> JNull \<and>
             (property r (js ''lineNumber'') = None \<or>
              (\<exists>s. property r (js ''lineNumber'') = Some (JString s)))\<close>
    by (simp add: d)
  have n: "StringToNumber (js ''7'') = Fin 7"
    by code_simp
  show ?thesis
    using createComment_keeps_every_entry [OF a b c, of exampleChunk] by (simp add: d n)
qed

text \<open>
  The claim C1 as the specification states it fails: an entry with the \<open>lineNumber\<close>
  \<open>abc\<close>, and one without a \<open>lineNumber\<close>, each give a comment, with the line
  \<open>NaN\<close>.
\<close>

theorem createComment_emits_NaN_line:
  \<open>createComment exampleFile exampleChunk
      (JArray [JObject [(js ''lineNumber'', JString (js ''abc'')),
                        (js ''reviewComment'', JString (js ''x''))]])
    = Inr [\<lparr>body = Some (JString (js ''x'')), path = js ''a.ts'', line = NaN\<rparr>] \<and>
   createComment exampleFile exampleChunk
      (JArray [JObject [(js ''reviewComment'', JString (js ''y''))]])
    = Inr [\<lparr>body = Some (JString (js ''y'')), path = js ''a.ts'', line = NaN\<rparr>]\<close>
  by code_simp

subsection \<open>The run\<close>

text \<open>
  C2, as the code has it: when the event is \<open>opened\<close> or \<open>synchronize\<close> and the diff
  request throws or gives the empty text, no prompt is sent and no review is submitted,
  \<open>No diff found\<close> is written to the console (after \<open>Error fetching diff\<close> when the
  request threw), and \<open>main\<close> returns: the exit status is 0.
\<close>

theorem diff_failure_ends_run_normally:
  assumes "getPRDetails e = Inr prDetails"
    and "event_file e = Some text" and "JSON_parse text = Some eventData"
    and "getProp (Some eventData) (js ''action'') = Inr action"
    and "action = Some (JString (js ''opened'')) \<or> action = Some (JString (js ''synchronize''))"
    and "d = pulls_get_diff e (owner prDetails) (repo prDetails) (pull_number prDetails)"
    and "d = None \<or> d = Some []"
  shows "fst (main e) = 0 \<and> reviews (snd (main e)) = [] \<and> sent (snd (main e)) = [] \<and>
         LogNoDiff \<in> set (console (snd (main e))) \<and>
         (d = None \<longrightarrow> ErrorFetchingDiff \<in> set (console (snd (main e))))"
proof -
  let ?w2 = "console_log (LogFetching (pull_number prDetails))
               (console_log (LogEventAction action) world0)"
  let ?g = "getDiff e (owner prDetails) (repo prDetails) (pull_number prDetails) ?w2"
  have g: "fst ?g = d" "sent (snd ?g) = []" "reviews (snd ?g) = []"
    "d = None \<longrightarrow> ErrorFetchingDiff \<in> set (console (snd ?g))"
    using assms(6) by (auto simp: getDiff_def console_log_fields world0_def split: option.splits)
  have "prepare e world0 = (Inl 0, console_log LogNoDiff (snd ?g))"
    using assms(1-5,7) g(1)
    by (auto simp: prepare_def Let_def case_prod_beta)
  then have "main e = (0, console_log LogNoDiff (snd ?g))"
    by (simp add: main_def)
  with g show ?thesis
    by (simp add: console_log_fields)
qed

theorem diff_failure_ends_run_normally_witness:
  "fst (main (exampleEnv None [])) = 0 \<and>
   reviews (snd (main (exampleEnv None []))) = [] \<and>
   LogNoDiff \<in> set (console (snd (main (exampleEnv None [])))) \<and>
   ErrorFetchingDiff \<in> set (console (snd (main (exampleEnv None []))))"
proof -
  have b: "event_file (exampleEnv None []) = Some exampleEvent"
    by (simp add: exampleEnv_def)
  have f: "None = pulls_get_diff (exampleEnv None []) (owner examplePR) (repo examplePR)
             (pull_number examplePR)"
    by (simp add: exampleEnv_def)
  show ?thesis
    using diff_failure_ends_run_normally
      [OF getPRDetails_example b exampleEvent_parse exampleEvent_action _ f]
    by simp
qed

text \<open>
  The claim C2 as the specification states it fails: with a diff request that throws, the
  run ends with the exit status 0, after these four lines on the console.
\<close>

theorem diff_failure_exit_status:
  "fst (main (exampleEnv None [])) = 0 \<and>
   console (snd (main (exampleEnv None []))) =
     [LogEventAction (Some (JString (js ''opened''))), LogFetching (Some (JNumber (Fin 7))),
      ErrorFetchingDiff, LogNoDiff]"
proof -
  have e: "event_file (exampleEnv None []) = Some exampleEvent"
    by (simp add: exampleEnv_def)
  have f: "pulls_get_diff (exampleEnv None []) ow re nu = None" for ow re nu
    by (simp add: exampleEnv_def)
  have "prepare (exampleEnv None []) world0 =
          (Inl 0, \<lparr>console = [LogEventAction (Some (JString (js ''opened''))),
                      LogFetching (Some (JNumber (Fin 7))), ErrorFetchingDiff, LogNoDiff],
                    sent = [], prompted = [], reviews = []\<rparr>)"
    unfolding prepare_def getPRDetails_example e exampleEvent_parse exampleEvent_props
      option.case sum.case
    by (simp add: getDiff_def Let_def f console_log_def world0_def examplePR_def)
  then show ?thesis
    by (simp add: main_def)
qed

subsection \<open>The response interpreter\<close>

text \<open>
  C3, at the response text \<open>{"reviews":5}\<close>: \<open>getAIResponse\<close> returns the number 5,
  which is neither a list nor \<open>null\<close>; the value is truthy, so \<open>analyzeCode\<close> hands it to
  \<open>createComment\<close>, whose call of \<open>flatMap\<close> throws a TypeError, and the run ends with
  the exit status 1.
\<close>

theorem getAIResponse_returns_number:
  \<open>fst (getAIResponse (exampleEnv d (js ''{"reviews":5}'')) prompt w) = JNumber (Fin 5) \<and>
   createComment file chunk (JNumber (Fin 5)) = Inl TypeError \<and>
   fst (main (exampleEnv (Some (js ''diff'')) (js ''{"reviews":5}''))) = 1\<close>
proof -
  have t: \<open>responseText [Some (Some (js ''{"reviews":5}''))] = Inr (js ''{"reviews":5}'')\<close>
    by code_simp
  have r: \<open>reviewsOf (js ''{"reviews":5}'') = JNumber (Fin 5)\<close>
    by code_simp
  have n: "js ''diff'' \<noteq> []"
    by (simp add: js_def)
  have \<open>fst (analyzeCode (exampleEnv (Some (js ''diff'')) (js ''{"reviews":5}''))
              [deletedFile, exampleFile] examplePR ww) = Inl TypeError\<close> for ww
    by (simp add: analyzeCode_example(1) [OF t] r)
  then have m: \<open>fst (main (exampleEnv (Some (js ''diff'')) (js ''{"reviews":5}''))) = 1\<close>
    by (rule main_after_prepare(2) [OF prepare_example [OF n]])
  show ?thesis
    using m by (simp add: getAIResponse_example [OF t] r)
qed

text \<open>
  C4: when the trimmed response text has a \<open>{\<close> and a later \<open>}\<close>, the candidate is the
  text from its first \<open>{\<close> through its last \<open>}\<close>, and the result of \<open>getAIResponse\<close> is
  what parsing that candidate gives. On \<open>Here you go:\n{"reviews":[]}\nThanks\<close> the result
  is the empty list.
\<close>

theorem getAIResponse_extracts_object:
  assumes "chat_completions_create e (length (sent w)) prompt = Some (Some (Some c) # rest)"
    and "trim c = pre @ [0x7B] @ mid @ [0x7D] @ post"
    and "0x7B \<notin> set pre" and "0x7D \<notin> set post"
  shows \<open>jsonMatch (trim c) = Some ([0x7B] @ mid @ [0x7D]) \<and>
         fst (getAIResponse e prompt w) =
           (case JSON_parse ([0x7B] @ mid @ [0x7D]) of
              None \<Rightarrow> JNull
            | Some parsed \<Rightarrow>
                (case getProp (Some parsed) (js ''reviews'') of
                   Inl x \<Rightarrow> JNull
                 | Inr r \<Rightarrow> if truthy r then the r else JArray [])) \<and>
         fst (getAIResponse
                (exampleEnv d' (js ''Here you go:\<newline>{"reviews":[]}\<newline>Thanks'')) prompt' w')
           = JArray []\<close>
proof -
  have m: "jsonMatch (trim c) = Some ([0x7B] @ mid @ [0x7D])"
    using assms(2-4) jsonMatch_braces [of pre post mid] by simp
  have "trim c \<noteq> []"
    using assms(2) by simp
  then have "responseText (Some (Some c) # rest) = Inr (trim c)"
    by (simp add: responseText_def)
  then have g: "fst (getAIResponse e prompt w) =
           (case JSON_parse ([0x7B] @ mid @ [0x7D]) of
              None \<Rightarrow> JNull
            | Some parsed \<Rightarrow>
                (case getProp (Some parsed) (js ''reviews'') of
                   Inl x \<Rightarrow> JNull
                 | Inr r \<Rightarrow> if truthy r then the r else JArray []))"
    using m assms(1) by (simp add: getAIResponse_value reviewsOf_def)
  have t: \<open>responseText [Some (Some (js ''Here you go:\<newline>{"reviews":[]}\<newline>Thanks''))]
             = Inr (js ''Here you go:\<newline>{"reviews":[]}\<newline>Thanks'')\<close>
    by code_simp
  have r: \<open>reviewsOf (js ''Here you go:\<newline>{"reviews":[]}\<newline>Thanks'') = JArray []\<close>
    by code_simp
  have "fst (getAIResponse
               (exampleEnv d' (js ''Here you go:\<newline>{\"reviews\":[]}\<newline>Thanks'')) prompt' w')
          = JArray []"
    by (simp add: getAIResponse_value exampleEnv_answer t r)
  with m g show ?thesis
    by blast
qed

theorem getAIResponse_extracts_object_witness:
  \<open>jsonMatch (trim (js ''Sure: {"reviews":[]} {done}''))
     = Some (js ''{"reviews":[]} {done}'') \<and>
   fst (getAIResponse (exampleEnv None (js ''Sure: {"reviews":[]} {done}'')) [] world0) = JNull\<close>
proof -
  have a: \<open>chat_completions_create (exampleEnv None (js ''Sure: {"reviews":[]} {done}''))
             (length (sent world0)) []
           = Some (Some (Some (js ''Sure: {"reviews":[]} {done}'')) # [])\<close>
    by (simp add: exampleEnv_answer)
  have b: \<open>trim (js ''Sure: {"reviews":[]} {done}'')
           = js ''Sure: '' @ [0x7B] @ js ''"reviews":[]} {done'' @ [0x7D] @ []\<close>
    by code_simp
  have c: \<open>0x7B \<notin> set (js ''Sure: '')\<close>
    by code_simp
  have d: \<open>0x7D \<notin> set ([] :: jsstring)\<close>
    by simp
  have e: \<open>0x7B # js ''"reviews":[]} {done'' @ [0x7D] = js ''{"reviews":[]} {done}''\<close>
    by code_simp
  have f: \<open>JSON_parse (js ''{"reviews":[]} {done}'') = None\<close>
    by code_simp
  show ?thesis
    using getAIResponse_extracts_object [OF a b c d, where d' = None and prompt' = "[]" and w' = world0]
    by (simp add: e f)
qed

text \<open>
  C5: when the model answers with the content
  \<open>{"reviews":[{"lineNumber":"42","reviewComment":"x"}]}\<close>, then for every file with the
  destination \<open>a.ts\<close>, and every hunk, \<open>getAIResponse\<close> followed by \<open>createComment\<close>
  gives exactly one comment, with the path \<open>a.ts\<close>, the line 42 and the body \<open>x\<close>.
\<close>

theorem roundtrip_one_comment:
  assumes "to file = Some (js ''a.ts'')"
    and \<open>chat_completions_create e (length (sent w)) prompt =
           Some (Some (Some (js ''{"reviews":[{"lineNumber":"42","reviewComment":"x"}]}'')) # rest)\<close>
  shows "createComment file chunk (fst (getAIResponse e prompt w))
           = Inr [\<lparr>body = Some (JString (js ''x'')), path = js ''a.ts'', line = Fin 42\<rparr>]"
proof -
  have t: \<open>responseText
              (Some (Some (js ''{"reviews":[{"lineNumber":"42","reviewComment":"x"}]}'')) # rest)
             = Inr (trim (js ''{"reviews":[{"lineNumber":"42","reviewComment":"x"}]}''))\<close>
    if \<open>trim (js ''{"reviews":[{"lineNumber":"42","reviewComment":"x"}]}'') \<noteq> []\<close>
    using that by (simp add: responseText_def)
  have u: \<open>trim (js ''{"reviews":[{"lineNumber":"42","reviewComment":"x"}]}'')
             = js ''{"reviews":[{"lineNumber":"42","reviewComment":"x"}]}''\<close>
    by code_simp
  have v: \<open>js ''{"reviews":[{"lineNumber":"42","reviewComment":"x"}]}'' \<noteq> []\<close>
    by (simp add: js_def)
  have r: \<open>reviewsOf (js ''{"reviews":[{"lineNumber":"42","reviewComment":"x"}]}'')
             = JArray [JObject [(js ''lineNumber'', JString (js ''42'')),
                                (js ''reviewComment'', JString (js ''x''))]]\<close>
    by code_simp
  have g: \<open>fst (getAIResponse e prompt w)
             = JArray [JObject [(js ''lineNumber'', JString (js ''42'')),
                                (js ''reviewComment'', JString (js ''x''))]]\<close>
    using t u v by (simp add: getAIResponse_value assms(2) r)
  have d: "js ''lineNumber'' \<noteq> js ''reviewComment''"
    "js ''reviewComment'' \<noteq> js ''lineNumber''" "js ''a.ts'' \<noteq> []"
    by (simp_all add: js_def)
  have n: "StringToNumber (js ''42'') = Fin 42"
    by code_simp
  show ?thesis
    unfolding g using assms(1) by (simp add: commentOf_def d n)
qed

theorem roundtrip_one_comment_witness:
  \<open>createComment exampleFile exampleChunk
      (fst (getAIResponse
         (exampleEnv None (js ''{"reviews":[{"lineNumber":"42","reviewComment":"x"}]}''))
         [] world0))
     = Inr [\<lparr>body = Some (JString (js ''x'')), path = js ''a.ts'', line = Fin 42\<rparr>]\<close>
proof -
  have a: "to exampleFile = Some (js ''a.ts'')"
    by (simp add: exampleFile_def)
  have b: \<open>chat_completions_create
              (exampleEnv None (js ''{"reviews":[{"lineNumber":"42","reviewComment":"x"}]}''))
              (length (sent world0)) [] =
            Some (Some (Some (js ''{"reviews":[{"lineNumber":"42","reviewComment":"x"}]}'')) # [])\<close>
    by (simp add: exampleEnv_answer)
  show ?thesis
    using roundtrip_one_comment [OF a b, of exampleChunk] by simp
qed

subsection \<open>Deleted files\<close>

text \<open>
  C6: \<open>analyzeCode\<close> gives the same comments and has the same effects with the files
  whose destination is \<open>/dev/null\<close> removed from its input; every hunk it hands to
  \<open>createPrompt\<close>, and so every prompt it sends to the model, belongs to a file of the
  input with another destination; and no comment it returns has the path \<open>/dev/null\<close>.
\<close>

theorem deleted_files_are_skipped:
  "analyzeCode e (filter (\<lambda>f. to f \<noteq> Some (js ''/dev/null'')) fs) pr w = analyzeCode e fs pr w \<and>
   (\<exists>hs. prompted (snd (analyzeCode e fs pr w)) = prompted w @ hs \<and>
         sent (snd (analyzeCode e fs pr w)) = sent w @ map (\<lambda>(f, c). createPrompt f c pr) hs \<and>
         (\<forall>(f, c)\<in>set hs. f \<in> set fs \<and> to f \<noteq> Some (js ''/dev/null'') \<and> c \<in> set (chunks f))) \<and>
   (\<forall>out. fst (analyzeCode e fs pr w) = Inr out \<longrightarrow> (\<forall>c\<in>set out. path c \<noteq> js ''/dev/null''))"
proof (intro conjI allI impI)
  show "analyzeCode e (filter (\<lambda>f. to f \<noteq> Some (js ''/dev/null'')) fs) pr w = analyzeCode e fs pr w"
    by (simp add: analyzeCode_def analyzeFiles_filter)
next
  let ?r = "analyzeFiles e pr fs [] w"
  from analyzeFiles_trace [of e pr fs "[]" w] obtain hs where
    "prompted (snd ?r) = prompted w @ hs"
    "sent (snd ?r) = sent w @ map (\<lambda>(f, c). createPrompt f c pr) hs"
    "\<forall>(f, c)\<in>set hs. f \<in> set fs \<and> to f \<noteq> Some (js ''/dev/null'') \<and> c \<in> set (chunks f)"
    by blast
  moreover have "prompted (snd (analyzeCode e fs pr w)) = prompted (snd ?r)"
    "sent (snd (analyzeCode e fs pr w)) = sent (snd ?r)"
    by (cases ?r; cases "fst ?r"; simp add: analyzeCode_def console_log_fields)+
  ultimately show "\<exists>hs. prompted (snd (analyzeCode e fs pr w)) = prompted w @ hs \<and>
         sent (snd (analyzeCode e fs pr w)) = sent w @ map (\<lambda>(f, c). createPrompt f c pr) hs \<and>
         (\<forall>(f, c)\<in>set hs. f \<in> set fs \<and> to f \<noteq> Some (js ''/dev/null'') \<and> c \<in> set (chunks f))"
    by (intro exI [of _ hs]) simp
next
  fix out
  assume "fst (analyzeCode e fs pr w) = Inr out"
  then have "fst (analyzeFiles e pr fs [] w) = Inr out"
    by (cases "analyzeFiles e pr fs [] w"; cases "fst (analyzeFiles e pr fs [] w)")
       (simp_all add: analyzeCode_def)
  from analyzeFiles_paths [OF _ this] show "\<forall>c\<in>set out. path c \<noteq> js ''/dev/null''"
    by simp
qed

theorem deleted_files_are_skipped_witness:
  \<open>analyzeCode (exampleEnv None (js ''{"reviews":[]}'')) [exampleFile] examplePR world0
     = analyzeCode (exampleEnv None (js ''{"reviews":[]}'')) [deletedFile, exampleFile]
         examplePR world0 \<and>
   prompted (snd (analyzeCode (exampleEnv None (js ''{"reviews":[]}''))
       [deletedFile, exampleFile] examplePR world0)) = [(exampleFile, exampleChunk)]\<close>
proof -
  have t: \<open>responseText [Some (Some (js ''{"reviews":[]}''))] = Inr (js ''{"reviews":[]}'')\<close>
    by code_simp
  have b: \<open>prompted (snd (analyzeCode (exampleEnv None (js ''{"reviews":[]}''))
       [deletedFile, exampleFile] examplePR world0)) = [(exampleFile, exampleChunk)]\<close>
    by (simp add: analyzeCode_example(2) [OF t] world0_def)
  show ?thesis
    using deleted_files_are_skipped
      [of \<open>exampleEnv None (js ''{"reviews":[]}'')\<close> "[deletedFile, exampleFile]" examplePR world0]
      b
    by (simp add: example_paths)
qed

subsection \<open>Submission\<close>

text \<open>
  C7: a run makes at most one review request, every review request carries at least one
  comment, and a run whose analysis ends with no comments makes none.
\<close>

theorem review_submitted_at_most_once:
  "length (reviews (snd (main e))) \<le> 1 \<and>
   (\<forall>r\<in>set (reviews (snd (main e))). request_comments r \<noteq> []) \<and>
   (\<forall>pr files w w'. prepare e world0 = (Inr (pr, files), w) \<and>
        analyzeCode e files pr w = (Inr [], w') \<longrightarrow> reviews (snd (main e)) = [])"
proof -
  have w0: "reviews (snd (prepare e world0)) = []"
    by (simp add: prepare_reviews world0_def)
  show ?thesis
  proof (cases "prepare e world0")
    case (Pair a w)
    with w0 have w: "reviews w = []" by simp
    show ?thesis
    proof (cases a)
      case (Inl status)
      with Pair w show ?thesis by (simp add: main_def)
    next
      case (Inr b)
      obtain pr files where b: "b = (pr, files)" by (cases b)
      obtain r w' where r: "analyzeCode e files pr w = (r, w')"
        by (cases "analyzeCode e files pr w")
      have "reviews w' = []"
        using analyzeCode_reviews [of e files pr w] r w by simp
      then have "reviews (snd (submit e pr (r, w'))) =
          (case r of Inl x \<Rightarrow> [] | Inr comments \<Rightarrow>
             if comments = [] then []
             else [CreateReview (owner pr) (repo pr) (pull_number pr) comments])"
        by (simp add: submit_reviews split: sum.splits)
      moreover have "main e = submit e pr (r, w')"
        using Pair Inr b r by (simp add: main_def)
      ultimately show ?thesis
        using Pair Inr b r by (auto split: sum.splits)
    qed
  qed
qed

theorem review_submitted_at_most_once_witness:
  \<open>reviews (snd (main (exampleEnv (Some (js ''diff''))
       (js ''{"reviews":[{"lineNumber":"42","reviewComment":"x"}]}'')))) =
     [CreateReview (Some (JString (js ''o''))) (Some (JString (js ''r''))) (Some (JNumber (Fin 7)))
        [\<lparr>body = Some (JString (js ''x'')), path = js ''a.ts'', line = Fin 42\<rparr>]] \<and>
   reviews (snd (main (exampleEnv (Some (js ''diff'')) (js ''{"reviews":[]}'')))) = []\<close>
proof -
  let ?e1 = \<open>exampleEnv (Some (js ''diff''))
               (js ''{"reviews":[{"lineNumber":"42","reviewComment":"x"}]}'')\<close>
  let ?e0 = \<open>exampleEnv (Some (js ''diff'')) (js ''{"reviews":[]}'')\<close>
  have n: "js ''diff'' \<noteq> []"
    by (simp add: js_def)
  have t1: \<open>responseText [Some (Some (js ''{"reviews":[{"lineNumber":"42","reviewComment":"x"}]}''))]
             = Inr (js ''{"reviews":[{"lineNumber":"42","reviewComment":"x"}]}'')\<close>
    by code_simp
  have r1: \<open>reviewsOf (js ''{"reviews":[{"lineNumber":"42","reviewComment":"x"}]}'')
             = JArray [JObject [(js ''lineNumber'', JString (js ''42'')),
                                (js ''reviewComment'', JString (js ''x''))]]\<close>
    by code_simp
  have c1: \<open>createComment exampleFile exampleChunk
              (JArray [JObject [(js ''lineNumber'', JString (js ''42'')),
                                (js ''reviewComment'', JString (js ''x''))]])
             = Inr [\<lparr>body = Some (JString (js ''x'')), path = js ''a.ts'', line = Fin 42\<rparr>]\<close>
    by code_simp
  have a1: \<open>fst (analyzeCode ?e1 [deletedFile, exampleFile] examplePR ww)
             = Inr [\<lparr>body = Some (JString (js ''x'')), path = js ''a.ts'', line = Fin 42\<rparr>]\<close> for ww
    unfolding analyzeCode_example(1) [OF t1] r1 c1 by simp
  have m1: \<open>reviews (snd (main ?e1)) =
     [CreateReview (Some (JString (js ''o''))) (Some (JString (js ''r''))) (Some (JNumber (Fin 7)))
        [\<lparr>body = Some (JString (js ''x'')), path = js ''a.ts'', line = Fin 42\<rparr>]]\<close>
    unfolding main_after_prepare(1) [OF prepare_example [OF n]] a1
    by (simp add: examplePR_def)
  have t0: \<open>responseText [Some (Some (js ''{"reviews":[]}''))] = Inr (js ''{"reviews":[]}'')\<close>
    by code_simp
  have r0: \<open>reviewsOf (js ''{"reviews":[]}'') = JArray []\<close>
    by code_simp
  have a0: \<open>fst (analyzeCode ?e0 [deletedFile, exampleFile] examplePR ww) = Inr []\<close> for ww
    unfolding analyzeCode_example(1) [OF t0] r0 by simp
  have p0: \<open>prepare ?e0 world0 = (Inr (examplePR, [deletedFile, exampleFile]), snd (prepare ?e0 world0))\<close>
    using prepare_example [OF n, of \<open>js ''{"reviews":[]}''\<close>] by (simp add: prod_eq_iff)
  have q0: \<open>analyzeCode ?e0 [deletedFile, exampleFile] examplePR (snd (prepare ?e0 world0))
             = (Inr [], snd (analyzeCode ?e0 [deletedFile, exampleFile] examplePR
                                (snd (prepare ?e0 world0))))\<close>
    using a0 by (simp add: prod_eq_iff)
  from review_submitted_at_most_once [of ?e0] p0 q0
  have \<open>reviews (snd (main ?e0)) = []\<close>
    by blast
  with m1 show ?thesis
    by simp
qed

text \<open>
  C9: a response content that is empty or consists of white space only becomes the text
  \<open>{}\<close>, which parses to an object without members; its \<open>reviews\<close> is \<open>undefined\<close>,
  and \<open>getAIResponse\<close> returns the empty list, not \<open>null\<close>.
\<close>

theorem blank_content_gives_empty_list:
  assumes "chat_completions_create e (length (sent w)) prompt = Some (Some (Some c) # rest)"
    and "\<forall>x\<in>set c. isWhiteSpace x"
  shows "responseText (Some (Some c) # rest) = Inr (js ''{}'') \<and>
         JSON_parse (js ''{}'') = Some (JObject []) \<and>
         getProp (Some (JObject [])) (js ''reviews'') = Inr None \<and>
         fst (getAIResponse e prompt w) = JArray []"
proof -
  have t: "responseText (Some (Some c) # rest) = Inr (js ''{}'')"
    using trim_whitespace [OF assms(2)] by (simp add: responseText_def)
  have p: "JSON_parse (js ''{}'') = Some (JObject [])"
    by code_simp
  have r: "reviewsOf (js ''{}'') = JArray []"
    by code_simp
  show ?thesis
    using t p r assms(1) by (simp add: getAIResponse_value)
qed

theorem blank_content_gives_empty_list_witness:
  "fst (getAIResponse (exampleEnv None (js '' \<newline>  '')) [] world0) = JArray []"
proof -
  have a: "chat_completions_create (exampleEnv None (js '' \<newline>  '')) (length (sent world0)) []
             = Some (Some (Some (js '' \<newline>  '')) # [])"
    by (simp add: exampleEnv_answer)
  have b: "\<forall>x\<in>set (js '' \<newline>  ''). isWhiteSpace x"
    by code_simp
  show ?thesis
    using blank_content_gives_empty_list [OF a b] by simp
qed

text \<open>
  C10: the text \<open>{"reviews":[]} see also {}\<close> starts with a complete JSON object (its
  first 14 characters), yet the candidate is the whole text, from the first \<open>{\<close> to the last
  \<open>}\<close>; that is no JSON text, and \<open>getAIResponse\<close> returns \<open>null\<close>.
\<close>

theorem trailing_braces_give_null:
  \<open>JSON_parse (take 14 (js ''{"reviews":[]} see also {}''))
     = Some (JObject [(js ''reviews'', JArray [])]) \<and>
   jsonMatch (js ''{"reviews":[]} see also {}'') = Some (js ''{"reviews":[]} see also {}'') \<and>
   JSON_parse (js ''{"reviews":[]} see also {}'') = None \<and>
   fst (getAIResponse (exampleEnv d (js ''{"reviews":[]} see also {}'')) prompt w) = JNull\<close>
proof -
  have t: \<open>responseText [Some (Some (js ''{"reviews":[]} see also {}''))]
             = Inr (js ''{"reviews":[]} see also {}'')\<close>
    by code_simp
  have a: \<open>JSON_parse (take 14 (js ''{"reviews":[]} see also {}''))
             = Some (JObject [(js ''reviews'', JArray [])])\<close>
    by code_simp
  have b: \<open>jsonMatch (js ''{"reviews":[]} see also {}'') = Some (js ''{"reviews":[]} see also {}'')\<close>
    by code_simp
  have c: \<open>JSON_parse (js ''{"reviews":[]} see also {}'') = None\<close>
    by code_simp
  have r: \<open>reviewsOf (js ''{"reviews":[]} see also {}'') = JNull\<close>
    by code_simp
  have "fst (getAIResponse (exampleEnv d (js ''{\"reviews\":[]} see also {}'')) prompt w) = JNull"
    by (simp add: getAIResponse_value exampleEnv_answer t r)
  with a b c show ?thesis
    by blast
qed

end
